theory Spec2Isabelle
  imports Complex_Main "HOL-Library.Signed_Division"
begin

section \<open>Floating-point values of the C program\<close>

text \<open>
  The program \<^verbatim>\<open>liljegren_c.c\<close> computes with C \<^verbatim>\<open>float\<close> and \<^verbatim>\<open>double\<close>.
  Both are modelled by one type: a finite value is an exact real number, and the three
  special values of IEEE 754 arithmetic are kept, because the program's control flow
  depends on them (a comparison with a NaN is false, a division by zero gives an
  infinity). Rounding and overflow of finite results are not modelled, with one
  exception: the store of \<^verbatim>\<open>max(min_speed, MIN_SPEED)\<close> in the \<^verbatim>\<open>float\<close> parameter
  \<^verbatim>\<open>min_speed\<close> of \<^verbatim>\<open>calc_wbgt\<close> (line 620), which rounds the \<^verbatim>\<open>double\<close> 0.13 to the
  nearest \<^verbatim>\<open>float\<close>, a smaller number, and so decides the least wind speed that the
  program reports. A zero has no sign: a division of a non-zero finite number by zero
  gives the infinity with the sign of the numerator.
\<close>

datatype fl = Fin real | PInf | NInf | NaN

fun is_fin :: "fl \<Rightarrow> bool" where
  "is_fin (Fin _) = True"
| "is_fin _ = False"

fun flt :: "fl \<Rightarrow> fl \<Rightarrow> bool" where
  "flt (Fin a) (Fin b) = (a < b)"
| "flt (Fin _) PInf = True"
| "flt NInf (Fin _) = True"
| "flt NInf PInf = True"
| "flt _ _ = False"

fun fle :: "fl \<Rightarrow> fl \<Rightarrow> bool" where
  "fle (Fin a) (Fin b) = (a \<le> b)"
| "fle NaN _ = False"
| "fle _ NaN = False"
| "fle _ PInf = True"
| "fle NInf _ = True"
| "fle _ _ = False"

definition fgt :: "fl \<Rightarrow> fl \<Rightarrow> bool" where
  "fgt a b = flt b a"

definition fge :: "fl \<Rightarrow> fl \<Rightarrow> bool" where
  "fge a b = fle b a"

text \<open>The C operator \<^verbatim>\<open>==\<close>: a NaN is equal to nothing.\<close>

definition feq :: "fl \<Rightarrow> fl \<Rightarrow> bool" where
  "feq a b = (a \<noteq> NaN \<and> a = b)"

fun fneg :: "fl \<Rightarrow> fl" where
  "fneg (Fin a) = Fin (- a)"
| "fneg PInf = NInf"
| "fneg NInf = PInf"
| "fneg NaN = NaN"

fun fadd :: "fl \<Rightarrow> fl \<Rightarrow> fl" where
  "fadd (Fin a) (Fin b) = Fin (a + b)"
| "fadd NaN _ = NaN"
| "fadd _ NaN = NaN"
| "fadd PInf NInf = NaN"
| "fadd NInf PInf = NaN"
| "fadd PInf _ = PInf"
| "fadd NInf _ = NInf"
| "fadd _ PInf = PInf"
| "fadd _ NInf = NInf"

definition fsub :: "fl \<Rightarrow> fl \<Rightarrow> fl" where
  "fsub a b = fadd a (fneg b)"

text \<open>The sign of an infinite product or quotient: \<open>inf_sign pos\<close>.\<close>

definition inf_sign :: "bool \<Rightarrow> fl" where
  "inf_sign pos = (if pos then PInf else NInf)"

fun fmul :: "fl \<Rightarrow> fl \<Rightarrow> fl" where
  "fmul (Fin a) (Fin b) = Fin (a * b)"
| "fmul NaN _ = NaN"
| "fmul _ NaN = NaN"
| "fmul (Fin a) PInf = (if a = 0 then NaN else inf_sign (0 < a))"
| "fmul (Fin a) NInf = (if a = 0 then NaN else inf_sign (a < 0))"
| "fmul PInf (Fin b) = (if b = 0 then NaN else inf_sign (0 < b))"
| "fmul NInf (Fin b) = (if b = 0 then NaN else inf_sign (b < 0))"
| "fmul PInf PInf = PInf"
| "fmul NInf NInf = PInf"
| "fmul PInf NInf = NInf"
| "fmul NInf PInf = NInf"

fun fdiv :: "fl \<Rightarrow> fl \<Rightarrow> fl" where
  "fdiv (Fin a) (Fin b) =
     (if b = 0 then (if a = 0 then NaN else inf_sign (0 < a)) else Fin (a / b))"
| "fdiv NaN _ = NaN"
| "fdiv _ NaN = NaN"
| "fdiv (Fin _) _ = Fin 0"
| "fdiv PInf (Fin b) = inf_sign (0 \<le> b)"
| "fdiv NInf (Fin b) = inf_sign (b < 0)"
| "fdiv _ _ = NaN"

fun fabs :: "fl \<Rightarrow> fl" where
  "fabs (Fin a) = Fin \<bar>a\<bar>"
| "fabs NaN = NaN"
| "fabs _ = PInf"

fun fsqrt :: "fl \<Rightarrow> fl" where
  "fsqrt (Fin a) = (if a < 0 then NaN else Fin (sqrt a))"
| "fsqrt PInf = PInf"
| "fsqrt _ = NaN"

fun fexp :: "fl \<Rightarrow> fl" where
  "fexp (Fin a) = Fin (exp a)"
| "fexp PInf = PInf"
| "fexp NInf = Fin 0"
| "fexp NaN = NaN"

fun flog :: "fl \<Rightarrow> fl" where
  "flog (Fin a) = (if a < 0 then NaN else if a = 0 then NInf else Fin (ln a))"
| "flog PInf = PInf"
| "flog _ = NaN"

text \<open>
  \<^verbatim>\<open>pow(x, y)\<close>: every call of the program has a finite constant as exponent, so the
  exponent is a real number here. The cases are those of C99, Annex F.
\<close>

definition is_int :: "real \<Rightarrow> bool" where
  "is_int y = (y = of_int \<lfloor>y\<rfloor>)"

definition odd_int :: "real \<Rightarrow> bool" where
  "odd_int y = (is_int y \<and> odd \<lfloor>y\<rfloor>)"

fun fpow :: "fl \<Rightarrow> real \<Rightarrow> fl" where
  "fpow (Fin a) y =
     (if y = 0 \<or> a = 1 then Fin 1
      else if 0 < a then Fin (a powr y)
      else if a = 0 then (if 0 < y then Fin 0 else PInf)
      else if is_int y then Fin (if odd_int y then - (\<bar>a\<bar> powr y) else \<bar>a\<bar> powr y)
      else NaN)"
| "fpow PInf y = (if y = 0 then Fin 1 else if 0 < y then PInf else Fin 0)"
| "fpow NInf y =
     (if y = 0 then Fin 1 else if 0 < y then (if odd_int y then NInf else PInf) else Fin 0)"
| "fpow NaN y = (if y = 0 then Fin 1 else NaN)"

fun fcos :: "fl \<Rightarrow> fl" where
  "fcos (Fin a) = Fin (cos a)"
| "fcos _ = NaN"

fun fsin :: "fl \<Rightarrow> fl" where
  "fsin (Fin a) = Fin (sin a)"
| "fsin _ = NaN"

text \<open>At a pole of the tangent the exact value is infinite.\<close>

fun ftan :: "fl \<Rightarrow> fl" where
  "ftan (Fin a) = (if cos a = 0 then PInf else Fin (tan a))"
| "ftan _ = NaN"

fun facos :: "fl \<Rightarrow> fl" where
  "facos (Fin a) = (if - 1 \<le> a \<and> a \<le> 1 then Fin (arccos a) else NaN)"
| "facos _ = NaN"

fun fasin :: "fl \<Rightarrow> fl" where
  "fasin (Fin a) = (if - 1 \<le> a \<and> a \<le> 1 then Fin (arcsin a) else NaN)"
| "fasin _ = NaN"

fun fatan2 :: "fl \<Rightarrow> fl \<Rightarrow> fl" where
  "fatan2 (Fin y) (Fin x) =
     Fin (if 0 < x then arctan (y / x)
          else if x < 0 then (if 0 \<le> y then arctan (y / x) + pi else arctan (y / x) - pi)
          else if 0 < y then pi / 2 else if y < 0 then - (pi / 2) else 0)"
| "fatan2 NaN _ = NaN"
| "fatan2 _ NaN = NaN"
| "fatan2 (Fin y) PInf = Fin 0"
| "fatan2 (Fin y) NInf = Fin (if 0 \<le> y then pi else - pi)"
| "fatan2 PInf (Fin _) = Fin (pi / 2)"
| "fatan2 NInf (Fin _) = Fin (- (pi / 2))"
| "fatan2 PInf PInf = Fin (pi / 4)"
| "fatan2 NInf PInf = Fin (- (pi / 4))"
| "fatan2 PInf NInf = Fin (3 * pi / 4)"
| "fatan2 NInf NInf = Fin (- (3 * pi / 4))"

text \<open>Truncation toward zero, the integral part that \<^verbatim>\<open>modf\<close> and a cast to \<^verbatim>\<open>int\<close> take.\<close>

definition trunc :: "real \<Rightarrow> int" where
  "trunc x = (if 0 \<le> x then \<lfloor>x\<rfloor> else \<lceil>x\<rceil>)"

text \<open>\<^verbatim>\<open>modf(x, &integral)\<close> returns the fractional part and stores the integral part.\<close>

fun modf :: "fl \<Rightarrow> fl \<times> fl" where
  "modf (Fin a) = (Fin (a - of_int (trunc a)), Fin (of_int (trunc a)))"
| "modf PInf = (Fin 0, PInf)"
| "modf NInf = (Fin 0, NInf)"
| "modf NaN = (NaN, NaN)"

text \<open>
  The cast \<^verbatim>\<open>(int)x\<close> of a floating-point value. C leaves the result undefined when the
  truncated value is not an \<^verbatim>\<open>int\<close>; the model takes what the conversion instruction of
  the usual targets gives, the least \<^verbatim>\<open>int\<close>.
\<close>

definition INT_MIN :: int where
  "INT_MIN = - 2147483648"

fun to_int :: "fl \<Rightarrow> int" where
  "to_int (Fin a) =
     (if - 2147483648 \<le> trunc a \<and> trunc a \<le> 2147483647 then trunc a else INT_MIN)"
| "to_int _ = INT_MIN"

definition of_c_int :: "int \<Rightarrow> fl" where
  "of_c_int i = Fin (of_int i)"

text \<open>\<^verbatim>\<open>round\<close>: to the nearest integer, halves away from zero.\<close>

fun fround :: "fl \<Rightarrow> fl" where
  "fround (Fin a) = Fin (of_int (if 0 \<le> a then \<lfloor>a + 1 / 2\<rfloor> else \<lceil>a - 1 / 2\<rceil>))"
| "fround x = x"

text \<open>The macros \<^verbatim>\<open>max(a,b) ((a) > (b) ? (a) : (b))\<close> and \<^verbatim>\<open>min(a,b) ((a) < (b) ? (a) : (b))\<close>.\<close>

definition max_c :: "fl \<Rightarrow> fl \<Rightarrow> fl" where
  "max_c a b = (if fgt a b then a else b)"

definition min_c :: "fl \<Rightarrow> fl \<Rightarrow> fl" where
  "min_c a b = (if flt a b then a else b)"

text \<open>
  The conversion of a \<^verbatim>\<open>double\<close> to \<^verbatim>\<open>float\<close>, the binary32 format: 24 significant
  bits, exponents from -126 to 127, round to nearest with ties to even. \<open>pow2 e\<close> is
  2 to the power \<open>e\<close>; \<open>float_exp a\<close> is the exponent of the binade of \<open>a\<close>, not below
  -126, found by counting up from -126; in that binade the floats are the multiples of
  \<open>pow2 (float_exp a - 23)\<close>. A rounded magnitude of \<open>pow2 128\<close> or more is an infinity.
\<close>

definition pow2 :: "int \<Rightarrow> real" where
  "pow2 e = (if 0 \<le> e then 2 ^ nat e else 1 / 2 ^ nat (- e))"

primrec float_exp_from :: "nat \<Rightarrow> int \<Rightarrow> real \<Rightarrow> int" where
  "float_exp_from 0 e a = e"
| "float_exp_from (Suc n) e a = (if pow2 (e + 1) \<le> a then float_exp_from n (e + 1) a else e)"

definition float_exp :: "real \<Rightarrow> int" where
  "float_exp a = float_exp_from 254 (- 126) \<bar>a\<bar>"

definition round_even :: "real \<Rightarrow> int" where
  "round_even t =
     (if t - of_int \<lfloor>t\<rfloor> < 1 / 2 then \<lfloor>t\<rfloor>
      else if 1 / 2 < t - of_int \<lfloor>t\<rfloor> then \<lfloor>t\<rfloor> + 1
      else if even \<lfloor>t\<rfloor> then \<lfloor>t\<rfloor> else \<lfloor>t\<rfloor> + 1)"

fun to_float :: "fl \<Rightarrow> fl" where
  "to_float (Fin a) =
     (let ulp = pow2 (float_exp a - 23);
          r = of_int (round_even (a / ulp)) * ulp
      in if pow2 128 \<le> \<bar>r\<bar> then inf_sign (0 < a) else Fin r)"
| "to_float x = x"

section \<open>Constants\<close>

definition REF_HEIGHT :: fl where "REF_HEIGHT = Fin 2.0"
definition MIN_SPEED :: fl where "MIN_SPEED = Fin 0.13"
definition CZA_MIN :: fl where "CZA_MIN = Fin 0.00873"
definition NORMSOLAR_MAX :: fl where "NORMSOLAR_MAX = Fin 0.85"
definition SOLAR_CONST :: fl where "SOLAR_CONST = Fin 1367"
definition CONVERGENCE :: fl where "CONVERGENCE = Fin 0.02"
definition MAX_ITER :: int where "MAX_ITER = 50"

section \<open>Stability class and wind speed at the reference height\<close>

definition lsrdt :: "int list list" where
  "lsrdt =
     [[1, 1, 2, 4, 0, 5, 6, 0],
      [1, 2, 3, 4, 0, 5, 6, 0],
      [2, 2, 3, 4, 0, 4, 4, 0],
      [3, 3, 4, 4, 0, 0, 0, 0],
      [3, 4, 4, 4, 0, 0, 0, 0],
      [0, 0, 0, 0, 0, 0, 0, 0]]"

text \<open>The column \<open>j\<close> and the row \<open>i\<close> that \<^verbatim>\<open>stab_srdt\<close> selects.\<close>

definition stab_j :: "int \<Rightarrow> fl \<Rightarrow> fl \<Rightarrow> nat" where
  "stab_j daytime solar dT =
     (if daytime \<noteq> 0 then
        (if fge solar (Fin 925.0) then 0
         else if fge solar (Fin 675.0) then 1
         else if fge solar (Fin 175.0) then 2
         else 3)
      else (if fge dT (Fin 0.0) then 6 else 5))"

definition stab_i :: "int \<Rightarrow> fl \<Rightarrow> nat" where
  "stab_i daytime speed =
     (if daytime \<noteq> 0 then
        (if fge speed (Fin 6.0) then 4
         else if fge speed (Fin 5.0) then 3
         else if fge speed (Fin 3.0) then 2
         else if fge speed (Fin 2.0) then 1
         else 0)
      else
        (if fge speed (Fin 2.5) then 2
         else if fge speed (Fin 2.0) then 1
         else 0))"

definition stab_srdt :: "int \<Rightarrow> fl \<Rightarrow> fl \<Rightarrow> fl \<Rightarrow> int" where
  "stab_srdt daytime speed solar dT =
     lsrdt ! stab_i daytime speed ! stab_j daytime solar dT"

definition urban_exp :: "real list" where
  "urban_exp = [0.15, 0.15, 0.20, 0.25, 0.30, 0.30]"

definition rural_exp :: "real list" where
  "rural_exp = [0.07, 0.07, 0.10, 0.15, 0.35, 0.55]"

text \<open>
  \<^verbatim>\<open>est_wind_speed\<close> reads \<^verbatim>\<open>urban_exp[stability_class-1]\<close> or
  \<^verbatim>\<open>rural_exp[stability_class-1]\<close>; a read outside the six entries is undefined in C
  and is \<open>None\<close> here.
\<close>

definition exp_index_ok :: "int \<Rightarrow> bool" where
  "exp_index_ok stability_class = (0 \<le> stability_class - 1 \<and> stability_class - 1 < 6)"

definition est_wind_speed :: "fl \<Rightarrow> fl \<Rightarrow> int \<Rightarrow> int \<Rightarrow> fl \<Rightarrow> fl option" where
  "est_wind_speed speed zspeed stability_class urban min_speed =
     (if \<not> exp_index_ok stability_class then None
      else
        let exponent = (if urban \<noteq> 0 then urban_exp ! nat (stability_class - 1)
                        else rural_exp ! nat (stability_class - 1));
            est_speed = fmul speed (fpow (fdiv REF_HEIGHT zspeed) exponent)
        in Some (max_c est_speed min_speed))"

section \<open>Solar position\<close>

definition TWOPI :: fl where "TWOPI = Fin 6.2831853071795864"
definition DEG_RAD :: fl where "DEG_RAD = Fin 0.017453292519943295"
definition RAD_DEG :: fl where "RAD_DEG = Fin 57.295779513082323"

definition begmonth :: "int list" where
  "begmonth = [0, 0, 31, 59, 90, 120, 151, 181, 212, 243, 273, 304, 334]"

text \<open>
  \<^verbatim>\<open>daynum\<close>; \<^verbatim>\<open>solarposition\<close> calls it with \<open>1 \<le> month \<le> 12\<close> only, so the read
  of \<^verbatim>\<open>begmonth[month]\<close> is inside the table. The C operators \<^verbatim>\<open>/\<close> and \<^verbatim>\<open>%\<close> on
  \<^verbatim>\<open>int\<close> truncate toward zero: \<open>sdiv\<close> and \<open>smod\<close>.
\<close>

definition daynum :: "int \<Rightarrow> int \<Rightarrow> int \<Rightarrow> int" where
  "daynum year month day =
     (if year < 1 then - 1
      else
        let leapyr = ((year smod 4 = 0 \<and> year smod 100 \<noteq> 0) \<or> year smod 400 = 0);
            dnum = begmonth ! nat month + day
        in if leapyr \<and> month > 2 then dnum + 1 else dnum)"

text \<open>The values that \<^verbatim>\<open>solarposition\<close> writes through its six output pointers.\<close>

record solar_out =
  ap_ra :: fl
  ap_dec :: fl
  altitude :: fl
  refraction :: fl
  azimuth :: fl
  distance :: fl

text \<open>
  The date part of \<^verbatim>\<open>solarposition\<close> (lines 257 to 314): \<open>None\<close> stands for
  \<^verbatim>\<open>return (-1)\<close>, and otherwise the result is \<open>(days_J2000, cent_J2000, ut)\<close>.
\<close>

definition solarposition_date :: "int \<Rightarrow> int \<Rightarrow> fl \<Rightarrow> fl \<Rightarrow> (fl \<times> fl \<times> fl) option" where
  "solarposition_date year month day days_1900 =
     (if year \<noteq> 0 then
        (if year < 1950 \<or> year > 2049 then None
         else if month \<noteq> 0 \<and>
                 (month < 1 \<or> month > 12 \<or> flt day (Fin 0.0) \<or> fgt day (Fin 33.0))
           then None
         else if month = 0 \<and> (flt day (Fin 0.0) \<or> fgt day (Fin 368.0)) then None
         else
           let daynumber = (if month \<noteq> 0 then daynum year month (to_int day) else to_int day);
               delta_years = year - 2000;
               delta_days0 = delta_years * 365 + delta_years sdiv 4 + daynumber;
               delta_days = (if year > 2000 then delta_days0 + 1 else delta_days0);
               days_J2000 = fsub (of_c_int delta_days) (Fin 1.5);
               cent_J2000 = fdiv days_J2000 (Fin 36525.0);
               ut = fst (modf day)
           in Some (fadd days_J2000 ut, cent_J2000, fmul ut (Fin 24.0)))
      else
        (if flt days_1900 (Fin 18262.0) \<or> fgt days_1900 (Fin 54788.0) then None
         else
           let days_J2000 = fsub days_1900 (Fin 36525.5);
               ut = fmul (fst (modf days_1900)) (Fin 24.0);
               integral = snd (modf days_1900);
               cent_J2000 = fdiv (fsub integral (Fin 36525.5)) (Fin 36525.0)
           in Some (days_J2000, cent_J2000, ut)))"

text \<open>The refraction correction (lines 427 to 440), with the altitude in degrees.\<close>

definition refraction_of :: "fl \<Rightarrow> fl \<Rightarrow> fl" where
  "refraction_of alt tan_alt =
     (let pressure = Fin 1013.25; temp = Fin 15.0 in
      if flt alt (Fin (- 1.0)) \<or> feq tan_alt (Fin 6000000) then Fin 0.0
      else if flt alt (Fin 19.225) then
        fdiv
          (fmul (fadd (Fin 0.1594) (fmul alt (fadd (Fin 0.0196) (fmul (Fin 0.00002) alt))))
                pressure)
          (fmul (fadd (Fin 1.0) (fmul alt (fadd (Fin 0.505) (fmul (Fin 0.0845) alt))))
                (fadd (Fin 273.0) temp))
      else
        fdiv (fmul (Fin 0.00452) (fdiv pressure (fadd (Fin 273.0) temp))) tan_alt)"

text \<open>
  The position part of \<^verbatim>\<open>solarposition\<close> (lines 317 to 446), from the date values,
  the latitude and the longitude.
\<close>

definition solarposition_compute :: "fl \<times> fl \<times> fl \<Rightarrow> fl \<Rightarrow> fl \<Rightarrow> solar_out" where
  "solarposition_compute date latitude longitude =
     (let days_J2000 = fst date; cent_J2000 = fst (snd date); ut = snd (snd date);
          mean_anomaly0 = fadd (Fin 357.528) (fmul (Fin 0.9856003) days_J2000);
          mean_longitude0 = fadd (Fin 280.460) (fmul (Fin 0.9856474) days_J2000);
          mean_anomaly = fmul (fst (modf (fdiv mean_anomaly0 (Fin 360.0)))) TWOPI;
          mean_longitude = fmul (fst (modf (fdiv mean_longitude0 (Fin 360.0)))) TWOPI;
          mean_obliquity = fmul (fsub (Fin 23.439) (fmul (Fin 0.0000004) days_J2000)) DEG_RAD;
          ecliptic_long =
            fadd (fmul (fadd (fmul (Fin 1.915) (fsin mean_anomaly))
                             (fmul (Fin 0.020) (fsin (fmul (Fin 2.0) mean_anomaly))))
                       DEG_RAD)
                 mean_longitude;
          dist = fsub (fsub (Fin 1.00014) (fmul (Fin 0.01671) (fcos mean_anomaly)))
                      (fmul (Fin 0.00014) (fcos (fmul (Fin 2.0) mean_anomaly)));
          ra0 = fatan2 (fmul (fcos mean_obliquity) (fsin ecliptic_long)) (fcos ecliptic_long);
          ra1 = (if flt ra0 (Fin 0.0) then fadd ra0 TWOPI else ra0);
          ra = fmul (fst (modf (fdiv ra1 TWOPI))) (Fin 24.0);
          dec = fasin (fmul (fsin mean_obliquity) (fsin ecliptic_long));
          gmst0 = fadd (Fin 24110.54841)
                    (fmul cent_J2000
                       (fadd (Fin 8640184.812866)
                          (fmul cent_J2000
                             (fsub (Fin 0.093104) (fmul cent_J2000 (Fin 0.0000062))))));
          gmst1 = fmul (fst (modf (fdiv (fdiv gmst0 (Fin 3600.0)) (Fin 24.0)))) (Fin 24.0);
          gmst0h = (if flt gmst1 (Fin 0.0) then fadd gmst1 (Fin 24.0) else gmst1);
          lmst0 = fadd (fadd gmst0h (fmul ut (Fin 1.00273790934))) (fdiv longitude (Fin 15.0));
          lmst1 = fmul (fst (modf (fdiv lmst0 (Fin 24.0)))) (Fin 24.0);
          lmst = (if flt lmst1 (Fin 0.0) then fadd lmst1 (Fin 24.0) else lmst1);
          ha0 = fsub lmst ra;
          ha1 = (if flt ha0 (Fin (- 12.0)) then fadd ha0 (Fin 24.0)
                 else if fgt ha0 (Fin 12.0) then fsub ha0 (Fin 24.0) else ha0);
          lat = fmul latitude DEG_RAD;
          local_ha = fmul (fdiv ha1 (Fin 24.0)) TWOPI;
          cos_apdec = fcos dec;
          sin_apdec = fsin dec;
          cos_lat = fcos lat;
          sin_lat = fsin lat;
          cos_lha = fcos local_ha;
          alt = fasin (fadd (fmul sin_apdec sin_lat) (fmul (fmul cos_apdec cos_lha) cos_lat));
          cos_alt = fcos alt;
          tan_alt = (if flt (fabs alt) (Fin 1.57079615) then ftan alt else Fin 6000000);
          cos_az = fdiv (fsub (fmul sin_apdec cos_lat) (fmul (fmul cos_apdec cos_lha) sin_lat))
                        cos_alt;
          sin_az = fneg (fdiv (fmul cos_apdec (fsin local_ha)) cos_alt);
          az0 = facos cos_az;
          az = (if flt (fatan2 sin_az cos_az) (Fin 0.0) then fsub TWOPI az0 else az0);
          dec_deg = fmul dec RAD_DEG;
          alt_deg = fmul alt RAD_DEG;
          az_deg = fmul az RAD_DEG;
          refr = refraction_of alt_deg tan_alt
      in \<lparr>ap_ra = ra, ap_dec = dec_deg, altitude = fadd alt_deg refr, refraction = refr,
          azimuth = az_deg, distance = dist\<rparr>)"

text \<open>
  \<^verbatim>\<open>solarposition\<close>: the return code, and the contents of the six output locations
  after the call. \<open>out0\<close> is what they held before: a return of \<open>-1\<close> leaves them as
  they were.
\<close>

definition solarposition ::
  "int \<Rightarrow> int \<Rightarrow> fl \<Rightarrow> fl \<Rightarrow> fl \<Rightarrow> fl \<Rightarrow> solar_out \<Rightarrow> int \<times> solar_out" where
  "solarposition year month day days_1900 latitude longitude out0 =
     (if flt latitude (Fin (- 90.0)) \<or> fgt latitude (Fin 90.0) \<or>
         flt longitude (Fin (- 180.0)) \<or> fgt longitude (Fin 180.0)
      then (- 1, out0)
      else
        case solarposition_date year month day days_1900 of
          None \<Rightarrow> (- 1, out0)
        | Some date \<Rightarrow> (0, solarposition_compute date latitude longitude))"

section \<open>Cosine of the zenith angle and direct-beam fraction\<close>

text \<open>
  The header \<^verbatim>\<open>spa_c.h\<close> and the function \<^verbatim>\<open>spa_calculate\<close> are not part of the
  sources. The record holds the fields that \<^verbatim>\<open>calc_solar_parameters\<close> sets, and
  \<^verbatim>\<open>spa_calculate\<close> is a parameter of the model: a function from the filled record to
  its result code and the two fields read back, \<^verbatim>\<open>zenith\<close> and \<^verbatim>\<open>r\<close>.
\<close>

record spa_data =
  spa_latitude :: fl
  spa_longitude :: fl
  spa_year :: int
  spa_month :: int
  spa_day :: int
  spa_hour :: int
  spa_minute :: int
  spa_second :: int
  spa_pressure :: fl
  spa_temperature :: fl
  spa_elevation :: fl
  spa_delta_t :: fl
  spa_delta_ut1 :: fl

type_synonym spa_fun = "spa_data \<Rightarrow> int \<times> fl \<times> fl"

definition spa_fill :: "int \<Rightarrow> int \<Rightarrow> fl \<Rightarrow> fl \<Rightarrow> fl \<Rightarrow> spa_data" where
  "spa_fill year month day lat lon =
     (let d = to_int day;
          seconds0 = to_int (fround (fmul (fsub day (of_c_int d)) (Fin 86400)));
          hour = to_int (fdiv (of_c_int seconds0) (Fin 3600.0));
          seconds1 = seconds0 smod 3600;
          minute = to_int (fdiv (of_c_int seconds1) (Fin 60.0))
      in \<lparr>spa_latitude = lat, spa_longitude = lon, spa_year = year, spa_month = month,
          spa_day = d, spa_hour = hour, spa_minute = minute, spa_second = seconds1 smod 60,
          spa_pressure = Fin 1010.0, spa_temperature = Fin 10.0, spa_elevation = Fin 0.0,
          spa_delta_t = Fin 0.0, spa_delta_ut1 = Fin 0.0\<rparr>)"

text \<open>
  Lines 482 to 512: the cosine of the zenith angle and the solar distance.
  \<open>junk\<close> is the indeterminate content of the locals \<^verbatim>\<open>ap_ra\<close> ... \<^verbatim>\<open>soldist\<close>, which
  are not initialised, and \<open>cza0\<close> is what the caller's \<^verbatim>\<open>*cza\<close> held.
\<close>

definition solar_geometry ::
  "spa_fun \<Rightarrow> solar_out \<Rightarrow> int \<Rightarrow> int \<Rightarrow> fl \<Rightarrow> fl \<Rightarrow> fl \<Rightarrow> int \<Rightarrow> fl \<Rightarrow> fl \<times> fl" where
  "solar_geometry spa_calculate junk year month day lat lon use_spa cza0 =
     (if use_spa = 0 then
        let out = snd (solarposition year month day (Fin 0.0) lat lon junk)
        in (fcos (fmul (fsub (Fin 90) (altitude out)) DEG_RAD), distance out)
      else
        case spa_calculate (spa_fill year month day lat lon) of
          (result, zenith, r) \<Rightarrow>
            if result = 0 then (fcos (fmul zenith DEG_RAD), r)
            else (cza0, distance junk))"

text \<open>Lines 514 and 522: the irradiance at the top of the atmosphere.\<close>

definition toasolar_of :: "fl \<Rightarrow> fl \<Rightarrow> fl" where
  "toasolar_of cza soldist =
     (if flt cza CZA_MIN then Fin 0
      else fdiv (fmul SOLAR_CONST (max_c (Fin 0) cza)) (fmul soldist soldist))"

text \<open>Lines 523 to 544: the adjusted irradiance and the direct-beam fraction.\<close>

definition solar_partition :: "fl \<Rightarrow> fl \<Rightarrow> fl \<times> fl" where
  "solar_partition solar toasolar =
     (if fgt toasolar (Fin 0) then
        let normsolar = min_c (fdiv solar toasolar) NORMSOLAR_MAX;
            solar' = fmul normsolar toasolar
        in if fgt normsolar (Fin 0) then
             let fdir = fexp (fsub (fsub (Fin 3) (fmul (Fin 1.34) normsolar))
                                   (fdiv (Fin 1.65) normsolar))
             in (solar', max_c (min_c fdir (Fin 0.9)) (Fin 0.0))
           else (solar', Fin 0)
      else (Fin 0.0, Fin 0.0))"

text \<open>
  \<^verbatim>\<open>calc_solar_parameters\<close>: the return code and the contents of \<^verbatim>\<open>*solar\<close>, \<^verbatim>\<open>*cza\<close>
  and \<^verbatim>\<open>*fdir\<close> after the call. The message printed when \<^verbatim>\<open>spa_calculate\<close> fails is
  not modelled.
\<close>

record solar_params =
  sp_solar :: fl
  sp_cza :: fl
  sp_fdir :: fl

definition calc_solar_parameters ::
  "spa_fun \<Rightarrow> solar_out \<Rightarrow> int \<Rightarrow> int \<Rightarrow> fl \<Rightarrow> fl \<Rightarrow> fl \<Rightarrow> int \<Rightarrow> fl \<Rightarrow> fl
     \<Rightarrow> int \<times> solar_params" where
  "calc_solar_parameters spa_calculate junk year month day lat lon use_spa solar cza0 =
     (let g = solar_geometry spa_calculate junk year month day lat lon use_spa cza0;
          cza = fst g;
          soldist = snd g;
          p = solar_partition solar (toasolar_of cza soldist)
      in (0, \<lparr>sp_solar = fst p, sp_cza = cza, sp_fdir = snd p\<rparr>))"

section \<open>Physical properties of air and water vapour\<close>

text \<open>
  The physical constants are macros of finite literals, so they are real numbers;
  \<open>Pr_air\<close> is the macro \<^verbatim>\<open>Pr\<close>.
\<close>

definition STEFANB :: real where "STEFANB = 0.000000056696"
definition Cp :: real where "Cp = 1003.5"
definition M_AIR :: real where "M_AIR = 28.97"
definition M_H2O :: real where "M_H2O = 18.015"
definition RATIO :: real where "RATIO = Cp * M_AIR / M_H2O"
definition R_GAS :: real where "R_GAS = 8314.34"
definition R_AIR :: real where "R_AIR = R_GAS / M_AIR"
definition Pr_air :: real where "Pr_air = Cp / (Cp + 1.25 * R_AIR)"
definition PI :: real where "PI = 3.1415926535897932"

definition EMIS_WICK :: real where "EMIS_WICK = 0.95"
definition ALB_WICK :: real where "ALB_WICK = 0.4"
definition D_WICK :: real where "D_WICK = 0.007"
definition L_WICK :: real where "L_WICK = 0.0254"
definition EMIS_GLOBE :: real where "EMIS_GLOBE = 0.95"
definition ALB_GLOBE :: real where "ALB_GLOBE = 0.05"
definition D_GLOBE :: real where "D_GLOBE = 0.0508"
definition EMIS_SFC :: real where "EMIS_SFC = 0.999"
definition ALB_SFC :: real where "ALB_SFC = 0.45"

text \<open>The value that \<^verbatim>\<open>Tglobe\<close> and \<^verbatim>\<open>Twb\<close> return when they do not converge.\<close>

definition SENTINEL :: fl where "SENTINEL = Fin (- 9999)"

definition esat :: "fl \<Rightarrow> int \<Rightarrow> fl" where
  "esat tk phase =
     (let es =
        (if phase = 0 then
           fmul (Fin 6.1121)
             (fexp (fmul (Fin 17.502) (fdiv (fsub tk (Fin 273.15)) (fsub tk (Fin 32.18)))))
         else
           fmul (Fin 6.1115)
             (fexp (fmul (Fin 22.452) (fdiv (fsub tk (Fin 273.15)) (fsub tk (Fin 0.6))))))
      in fmul (Fin 1.004) es)"

definition dew_point :: "fl \<Rightarrow> int \<Rightarrow> fl" where
  "dew_point e phase =
     (if phase = 0 then
        let z = flog (fdiv e (Fin (6.1121 * 1.004)))
        in fadd (Fin 273.15) (fdiv (fmul (Fin 240.97) z) (fsub (Fin 17.502) z))
      else
        let z = flog (fdiv e (Fin (6.1115 * 1.004)))
        in fadd (Fin 273.15) (fdiv (fmul (Fin 272.55) z) (fsub (Fin 22.452) z)))"

definition viscosity :: "fl \<Rightarrow> fl" where
  "viscosity Tair =
     (let sigma = Fin 3.617;
          eps_kappa = Fin 97.0;
          Tr = fdiv Tair eps_kappa;
          omega = fadd (fmul (fdiv (fsub Tr (Fin 2.9)) (Fin 0.4)) (Fin (- 0.034))) (Fin 1.048)
      in fdiv (fmul (Fin 0.0000026693) (fsqrt (fmul (Fin M_AIR) Tair)))
              (fmul (fmul sigma sigma) omega))"

definition thermal_cond :: "fl \<Rightarrow> fl" where
  "thermal_cond Tair = fmul (Fin (Cp + 1.25 * R_AIR)) (viscosity Tair)"

definition diffusivity :: "fl \<Rightarrow> fl \<Rightarrow> fl" where
  "diffusivity Tair P_air =
     (let Pcrit_air = 36.4; Pcrit_h2o = 218; Tcrit_air = 132; Tcrit_h2o = 647.3;
          a = Fin 0.0003640; b = 2.334;
          Pcrit13 = fpow (Fin (Pcrit_air * Pcrit_h2o)) (1 / 3);
          Tcrit512 = fpow (Fin (Tcrit_air * Tcrit_h2o)) (5 / 12);
          Tcrit12 = fsqrt (Fin (Tcrit_air * Tcrit_h2o));
          Mmix = fsqrt (Fin (1 / M_AIR + 1 / M_H2O));
          Patm = fdiv P_air (Fin 1013.25)
      in fmul (fdiv (fmul (fmul (fmul (fmul a (fpow (fdiv Tair Tcrit12) b)) Pcrit13) Tcrit512)
                          Mmix)
                    Patm)
              (Fin 0.0001))"

definition evap :: "fl \<Rightarrow> fl" where
  "evap Tair =
     fadd (fmul (fdiv (fsub (Fin 313.15) Tair) (Fin 30)) (Fin (- 71100))) (Fin 2407300)"

definition emis_atm :: "fl \<Rightarrow> fl \<Rightarrow> fl" where
  "emis_atm Tair rh = (let e = fmul rh (esat Tair 0) in fmul (Fin 0.575) (fpow e 0.143))"

text \<open>
  The density of air, \<^verbatim>\<open>Pair * 100. / (R_AIR * Tair)\<close>, which \<^verbatim>\<open>Twb\<close> and the two
  heat-transfer functions each compute.
\<close>

definition air_density :: "fl \<Rightarrow> fl \<Rightarrow> fl" where
  "air_density P_air Tair = fdiv (fmul P_air (Fin 100)) (fmul (Fin R_AIR) Tair)"

definition h_cylinder_in_air :: "fl \<Rightarrow> fl \<Rightarrow> fl \<Rightarrow> fl \<Rightarrow> fl \<Rightarrow> fl" where
  "h_cylinder_in_air diameter len Tair P_air speed =
     (let a = 0.56; b = Fin 0.281; c = 0.4;
          density = air_density P_air Tair;
          Reyn = fdiv (fmul (fmul speed density) diameter) (viscosity Tair);
          Nu = fmul (fmul b (fpow Reyn (1 - c))) (fpow (Fin Pr_air) (1 - a))
      in fdiv (fmul Nu (thermal_cond Tair)) diameter)"

definition h_sphere_in_air :: "fl \<Rightarrow> fl \<Rightarrow> fl \<Rightarrow> fl \<Rightarrow> fl" where
  "h_sphere_in_air diameter Tair P_air speed =
     (let density = air_density P_air Tair;
          Reyn = fdiv (fmul (fmul speed density) diameter) (viscosity Tair);
          Nu = fadd (Fin 2.0) (fmul (fmul (Fin 0.6) (fsqrt Reyn)) (fpow (Fin Pr_air) 0.3333))
      in fdiv (fmul Nu (thermal_cond Tair)) diameter)"

section \<open>The two damped fixed-point solvers\<close>

text \<open>
  One pass through the body of the loop of \<^verbatim>\<open>Twb\<close> (lines 727 to 739): the new
  estimate \<^verbatim>\<open>Twb_new\<close> from the previous one. \<^verbatim>\<open>heat\<close> starts at 0 and is assigned
  only when \<^verbatim>\<open>rad == 1\<close>.
\<close>

definition Twb_new_of :: "fl \<Rightarrow> fl \<Rightarrow> fl \<Rightarrow> fl \<Rightarrow> fl \<Rightarrow> fl \<Rightarrow> fl \<Rightarrow> int \<Rightarrow> fl \<Rightarrow> fl" where
  "Twb_new_of Tair rh P_air speed solar fdir cza rad Twb_prev =
     (let a = 0.56;
          Tsfc = Tair;
          sza = facos cza;
          eair = fmul rh (esat Tair 0);
          Tref = fmul (Fin 0.5) (fadd Twb_prev Tair);
          Fatm =
            fadd
              (fmul (Fin (STEFANB * EMIS_WICK))
                 (fsub
                    (fmul (Fin 0.5)
                       (fadd (fmul (emis_atm Tair rh) (fpow Tair 4))
                             (fmul (Fin EMIS_SFC) (fpow Tsfc 4))))
                    (fpow Twb_prev 4)))
              (fmul (fmul (Fin (1 - ALB_WICK)) solar)
                 (fadd
                    (fadd (fmul (fsub (Fin 1) fdir) (Fin (1 + 0.25 * D_WICK / L_WICK)))
                          (fmul fdir
                             (fadd (fdiv (ftan sza) (Fin PI)) (Fin (0.25 * D_WICK / L_WICK)))))
                    (Fin ALB_SFC)));
          heat = (if rad = 1
                  then fdiv Fatm (h_cylinder_in_air (Fin D_WICK) (Fin L_WICK) Tref P_air speed)
                  else Fin 0.0);
          ewick = esat Twb_prev 0;
          density = air_density P_air Tref;
          Sc = fdiv (viscosity Tref) (fmul density (diffusivity Tref P_air))
      in fadd
           (fsub Tair
              (fmul (fdiv (fmul (fdiv (evap Tref) (Fin RATIO)) (fsub ewick eair))
                          (fsub P_air ewick))
                    (fpow (fdiv (Fin Pr_air) Sc) a)))
           heat)"

text \<open>
  The \<^verbatim>\<open>do ... while (!converged && iter < MAX_ITER)\<close> loop of \<^verbatim>\<open>Twb\<close>, from the
  values of \<^verbatim>\<open>Twb_prev\<close> and \<^verbatim>\<open>iter\<close> at the start of a pass to the values of
  \<^verbatim>\<open>Twb_new\<close>, \<^verbatim>\<open>converged\<close> and \<^verbatim>\<open>iter\<close> when the loop is left.
\<close>

function Twb_loop ::
  "fl \<Rightarrow> fl \<Rightarrow> fl \<Rightarrow> fl \<Rightarrow> fl \<Rightarrow> fl \<Rightarrow> fl \<Rightarrow> int \<Rightarrow> fl \<Rightarrow> int \<Rightarrow> fl \<times> bool \<times> int" where
  "Twb_loop Tair rh P_air speed solar fdir cza rad Twb_prev iter =
     (let iter' = iter + 1;
          Twb_new = Twb_new_of Tair rh P_air speed solar fdir cza rad Twb_prev;
          converged = flt (fabs (fsub Twb_new Twb_prev)) CONVERGENCE;
          Twb_prev' = fadd (fmul (Fin 0.9) Twb_prev) (fmul (Fin 0.1) Twb_new)
      in if \<not> converged \<and> iter' < MAX_ITER
         then Twb_loop Tair rh P_air speed solar fdir cza rad Twb_prev' iter'
         else (Twb_new, converged, iter'))"
  by pat_completeness auto
termination
  by (relation "measure (\<lambda>(Tair, rh, P_air, speed, solar, fdir, cza, rad, Twb_prev, iter).
                  nat (MAX_ITER - iter))") auto

declare Twb_loop.simps [simp del]

definition Twb :: "fl \<Rightarrow> fl \<Rightarrow> fl \<Rightarrow> fl \<Rightarrow> fl \<Rightarrow> fl \<Rightarrow> fl \<Rightarrow> int \<Rightarrow> fl" where
  "Twb Tair rh P_air speed solar fdir cza rad =
     (let eair = fmul rh (esat Tair 0);
          Tdew = dew_point eair 0
      in case Twb_loop Tair rh P_air speed solar fdir cza rad Tdew 0 of
           (Twb_new, converged, iter) \<Rightarrow>
             if converged then fsub Twb_new (Fin 273.15) else SENTINEL)"

text \<open>One pass through the body of the loop of \<^verbatim>\<open>Tglobe\<close> (lines 821 to 829).\<close>

definition Tglobe_new_of :: "fl \<Rightarrow> fl \<Rightarrow> fl \<Rightarrow> fl \<Rightarrow> fl \<Rightarrow> fl \<Rightarrow> fl \<Rightarrow> fl \<Rightarrow> fl \<Rightarrow> fl" where
  "Tglobe_new_of Tair rh P_air speed solar fdir cza d_globe Tglobe_prev =
     (let Tsfc = Tair;
          Tref = fmul (Fin 0.5) (fadd Tglobe_prev Tair);
          h = h_sphere_in_air d_globe Tref P_air speed
      in fpow
           (fadd
              (fsub
                 (fmul (Fin 0.5)
                    (fadd (fmul (emis_atm Tair rh) (fpow Tair 4))
                          (fmul (Fin EMIS_SFC) (fpow Tsfc 4))))
                 (fmul (fdiv h (Fin (STEFANB * EMIS_GLOBE))) (fsub Tglobe_prev Tair)))
              (fmul (fmul (fdiv solar (Fin (2 * STEFANB * EMIS_GLOBE))) (Fin (1 - ALB_GLOBE)))
                 (fadd
                    (fadd (fmul fdir (fsub (fdiv (Fin 1) (fmul (Fin 2) cza)) (Fin 1))) (Fin 1))
                    (Fin ALB_SFC))))
           0.25)"

function Tglobe_loop ::
  "fl \<Rightarrow> fl \<Rightarrow> fl \<Rightarrow> fl \<Rightarrow> fl \<Rightarrow> fl \<Rightarrow> fl \<Rightarrow> fl \<Rightarrow> fl \<Rightarrow> int \<Rightarrow> fl \<times> bool \<times> int" where
  "Tglobe_loop Tair rh P_air speed solar fdir cza d_globe Tglobe_prev iter =
     (let iter' = iter + 1;
          Tglobe_new = Tglobe_new_of Tair rh P_air speed solar fdir cza d_globe Tglobe_prev;
          converged = flt (fabs (fsub Tglobe_new Tglobe_prev)) CONVERGENCE;
          Tglobe_prev' = fadd (fmul (Fin 0.9) Tglobe_prev) (fmul (Fin 0.1) Tglobe_new)
      in if \<not> converged \<and> iter' < MAX_ITER
         then Tglobe_loop Tair rh P_air speed solar fdir cza d_globe Tglobe_prev' iter'
         else (Tglobe_new, converged, iter'))"
  by pat_completeness auto
termination
  by (relation "measure (\<lambda>(Tair, rh, P_air, speed, solar, fdir, cza, d_globe, Tglobe_prev,
                  iter). nat (MAX_ITER - iter))") auto

declare Tglobe_loop.simps [simp del]

definition Tglobe :: "fl \<Rightarrow> fl \<Rightarrow> fl \<Rightarrow> fl \<Rightarrow> fl \<Rightarrow> fl \<Rightarrow> fl \<Rightarrow> fl \<Rightarrow> fl" where
  "Tglobe Tair rh P_air speed solar fdir cza d_globe =
     (let d = (if feq d_globe (Fin 0.0) then Fin D_GLOBE else d_globe)
      in case Tglobe_loop Tair rh P_air speed solar fdir cza d Tair 0 of
           (Tglobe_new, converged, iter) \<Rightarrow>
             if converged then fsub Tglobe_new (Fin 273.15) else SENTINEL)"

text \<open>
  The passes of the two loops, counted from 0. \<open>Tglobe_prev_at ... T0 n\<close> is the value of
  \<^verbatim>\<open>Tglobe_prev\<close> at the start of pass \<open>n\<close> when the loop starts from \<open>T0\<close> and no
  earlier pass has left it, and \<open>Tglobe_test ... T0 n\<close> is the test
  \<^verbatim>\<open>fabs(Tglobe_new-Tglobe_prev) < CONVERGENCE\<close> of that pass; likewise for \<^verbatim>\<open>Twb\<close>.
\<close>

primrec Tglobe_prev_at ::
  "fl \<Rightarrow> fl \<Rightarrow> fl \<Rightarrow> fl \<Rightarrow> fl \<Rightarrow> fl \<Rightarrow> fl \<Rightarrow> fl \<Rightarrow> fl \<Rightarrow> nat \<Rightarrow> fl" where
  "Tglobe_prev_at Tair rh P_air speed solar fdir cza d_globe T0 0 = T0"
| "Tglobe_prev_at Tair rh P_air speed solar fdir cza d_globe T0 (Suc n) =
     fadd (fmul (Fin 0.9) (Tglobe_prev_at Tair rh P_air speed solar fdir cza d_globe T0 n))
          (fmul (Fin 0.1)
             (Tglobe_new_of Tair rh P_air speed solar fdir cza d_globe
                (Tglobe_prev_at Tair rh P_air speed solar fdir cza d_globe T0 n)))"

definition Tglobe_test ::
  "fl \<Rightarrow> fl \<Rightarrow> fl \<Rightarrow> fl \<Rightarrow> fl \<Rightarrow> fl \<Rightarrow> fl \<Rightarrow> fl \<Rightarrow> fl \<Rightarrow> nat \<Rightarrow> bool" where
  "Tglobe_test Tair rh P_air speed solar fdir cza d_globe T0 n =
     flt (fabs (fsub (Tglobe_new_of Tair rh P_air speed solar fdir cza d_globe
                        (Tglobe_prev_at Tair rh P_air speed solar fdir cza d_globe T0 n))
                     (Tglobe_prev_at Tair rh P_air speed solar fdir cza d_globe T0 n)))
         CONVERGENCE"

primrec Twb_prev_at ::
  "fl \<Rightarrow> fl \<Rightarrow> fl \<Rightarrow> fl \<Rightarrow> fl \<Rightarrow> fl \<Rightarrow> fl \<Rightarrow> int \<Rightarrow> fl \<Rightarrow> nat \<Rightarrow> fl" where
  "Twb_prev_at Tair rh P_air speed solar fdir cza rad T0 0 = T0"
| "Twb_prev_at Tair rh P_air speed solar fdir cza rad T0 (Suc n) =
     fadd (fmul (Fin 0.9) (Twb_prev_at Tair rh P_air speed solar fdir cza rad T0 n))
          (fmul (Fin 0.1)
             (Twb_new_of Tair rh P_air speed solar fdir cza rad
                (Twb_prev_at Tair rh P_air speed solar fdir cza rad T0 n)))"

definition Twb_test ::
  "fl \<Rightarrow> fl \<Rightarrow> fl \<Rightarrow> fl \<Rightarrow> fl \<Rightarrow> fl \<Rightarrow> fl \<Rightarrow> int \<Rightarrow> fl \<Rightarrow> nat \<Rightarrow> bool" where
  "Twb_test Tair rh P_air speed solar fdir cza rad T0 n =
     flt (fabs (fsub (Twb_new_of Tair rh P_air speed solar fdir cza rad
                        (Twb_prev_at Tair rh P_air speed solar fdir cza rad T0 n))
                     (Twb_prev_at Tair rh P_air speed solar fdir cza rad T0 n)))
         CONVERGENCE"

section \<open>The wet bulb globe temperature\<close>

text \<open>The values that \<^verbatim>\<open>calc_wbgt\<close> writes through its six output pointers.\<close>

record wbgt_out =
  est_speed :: fl
  solar_adj :: fl
  Tg :: fl
  Tnwb :: fl
  Tpsy :: fl
  Twbg :: fl

text \<open>
  Lines 637 to 649: the wind speed at the reference height. \<open>None\<close> stands for a read
  outside the exponent tables of \<^verbatim>\<open>est_wind_speed\<close>.
\<close>

definition wbgt_speed :: "fl \<Rightarrow> fl \<Rightarrow> fl \<Rightarrow> fl \<Rightarrow> int \<Rightarrow> fl \<Rightarrow> fl \<Rightarrow> fl option" where
  "wbgt_speed speed zspeed solar dT urban min_speed cza =
     (if \<not> feq zspeed REF_HEIGHT then
        let daytime = (if fgt cza (Fin 0) then 1 else 0);
            stability_class = stab_srdt daytime speed solar dT
        in est_wind_speed speed zspeed stability_class urban min_speed
      else Some (max_c speed min_speed))"

text \<open>
  \<^verbatim>\<open>calc_wbgt\<close>: the return code and the contents of the six output locations. The
  parameters before \<open>year\<close> are not arguments of the C function: \<open>spa_calculate\<close> is the
  external solar position algorithm, \<open>junk\<close> the indeterminate contents of the
  uninitialised locals of \<^verbatim>\<open>calc_solar_parameters\<close>, and \<open>cza0\<close> that of the local
  \<^verbatim>\<open>cza\<close> of \<^verbatim>\<open>calc_wbgt\<close>.
\<close>

definition calc_wbgt ::
  "spa_fun \<Rightarrow> solar_out \<Rightarrow> fl \<Rightarrow>
   int \<Rightarrow> int \<Rightarrow> int \<Rightarrow> int \<Rightarrow> int \<Rightarrow> int \<Rightarrow> int \<Rightarrow> int \<Rightarrow> fl \<Rightarrow> fl \<Rightarrow>
   fl \<Rightarrow> fl \<Rightarrow> fl \<Rightarrow> fl \<Rightarrow> fl \<Rightarrow> fl \<Rightarrow> fl \<Rightarrow> int \<Rightarrow> int \<Rightarrow> fl \<Rightarrow> fl \<Rightarrow>
   (int \<times> wbgt_out) option" where
  "calc_wbgt spa_calculate junk cza0
     year month day hour minute second gmt avg lat lon
     solar pres Tair relhum speed zspeed dT urban use_spa min_speed d_globe =
     (let min_speed' = to_float (max_c min_speed MIN_SPEED);
          hour_gmt =
            fadd (of_c_int (hour - gmt))
              (fdiv (fadd (fsub (of_c_int minute) (fmul (Fin 0.5) (of_c_int avg)))
                          (fdiv (of_c_int second) (Fin 60.0)))
                    (Fin 60));
          dday = fadd (of_c_int day) (fdiv hour_gmt (Fin 24));
          sp = snd (calc_solar_parameters spa_calculate junk year month dday lat lon use_spa
                      solar cza0);
          solar' = sp_solar sp;
          cza = sp_cza sp;
          fdir = sp_fdir sp
      in case wbgt_speed speed zspeed solar' dT urban min_speed' cza of
           None \<Rightarrow> None
         | Some speed' \<Rightarrow>
             let d_globe' = (if feq d_globe (Fin 0.0) then Fin D_GLOBE else d_globe);
                 tk = fadd Tair (Fin 273.15);
                 rh = fmul (Fin 0.01) relhum;
                 tg = Tglobe tk rh pres speed' solar' fdir cza d_globe';
                 tnwb = Twb tk rh pres speed' solar' fdir cza 1;
                 tpsy = Twb tk rh pres speed' solar' fdir cza 0;
                 twbg = fadd (fadd (fmul (Fin 0.1) Tair) (fmul (Fin 0.2) tg))
                             (fmul (Fin 0.7) tnwb)
             in if feq tg SENTINEL \<or> feq tnwb SENTINEL
                then Some (- 1, \<lparr>est_speed = speed', solar_adj = solar', Tg = tg,
                                  Tnwb = tnwb, Tpsy = tpsy, Twbg = SENTINEL\<rparr>)
                else Some (0, \<lparr>est_speed = speed', solar_adj = solar', Tg = tg,
                               Tnwb = tnwb, Tpsy = tpsy, Twbg = twbg\<rparr>))"

text \<open>
  Lines 625 to 632 alone: the solar parameters that \<^verbatim>\<open>calc_wbgt\<close> obtains, from the day
  and the time shifted to GMT and centred in the averaging period.
\<close>

definition wbgt_solar ::
  "spa_fun \<Rightarrow> solar_out \<Rightarrow> fl \<Rightarrow> int \<Rightarrow> int \<Rightarrow> int \<Rightarrow> int \<Rightarrow> int \<Rightarrow> int \<Rightarrow> int \<Rightarrow> int \<Rightarrow>
   fl \<Rightarrow> fl \<Rightarrow> fl \<Rightarrow> int \<Rightarrow> solar_params" where
  "wbgt_solar spa_calculate junk cza0 year month day hour minute second gmt avg lat lon
     solar use_spa =
     snd (calc_solar_parameters spa_calculate junk year month
            (fadd (of_c_int day)
               (fdiv (fadd (of_c_int (hour - gmt))
                        (fdiv (fadd (fsub (of_c_int minute) (fmul (Fin 0.5) (of_c_int avg)))
                                    (fdiv (of_c_int second) (Fin 60.0)))
                              (Fin 60)))
                     (Fin 24)))
            lat lon use_spa solar cza0)"

section \<open>Auxiliary definitions for the properties\<close>

text \<open>A content of the six output locations of \<^verbatim>\<open>solarposition\<close> before a call.\<close>

definition out_nan :: solar_out where
  "out_nan = \<lparr>ap_ra = NaN, ap_dec = NaN, altitude = NaN, refraction = NaN,
              azimuth = NaN, distance = NaN\<rparr>"

text \<open>A zenith angle of \<open>2 / DEG_RAD\<close> degrees, about 114.6, from \<^verbatim>\<open>spa_calculate\<close>.\<close>

definition spa_low_sun :: spa_fun where
  "spa_low_sun d = (0, Fin (2 / 0.017453292519943295), Fin 1)"

text \<open>
  The direct-beam fraction as the specification writes it:
  \<open>clamp(exp(3 - 1.34 normsolar - 1.65 / normsolar), 0, 0.9)\<close>.
\<close>

definition fdir_spec :: "fl \<Rightarrow> fl" where
  "fdir_spec normsolar =
     max_c
       (min_c (fexp (fsub (fsub (Fin 3) (fmul (Fin 1.34) normsolar))
                          (fdiv (Fin 1.65) normsolar)))
              (Fin 0.9))
       (Fin 0)"

text \<open>The sun at the zenith, one astronomical unit away, from \<^verbatim>\<open>spa_calculate\<close>.\<close>

definition spa_zenith_0 :: spa_fun where
  "spa_zenith_0 d = (0, Fin 0, Fin 1)"

text \<open>
  The property functions on finite arguments, as functions on the real numbers. They are
  used to evaluate the solvers at finite inputs; \<open>Fatm_r\<close> is the radiative term of
  \<^verbatim>\<open>Twb\<close> with \<open>fdir = 0\<close> and the sun at the zenith.
\<close>

definition esat_r :: "real \<Rightarrow> real" where
  "esat_r T = 1.004 * (6.1121 * exp (17.502 * ((T - 273.15) / (T - 32.18))))"

definition omega_r :: "real \<Rightarrow> real" where
  "omega_r T = (T / 97 - 2.9) / 0.4 * (- 0.034) + 1.048"

definition visc_r :: "real \<Rightarrow> real" where
  "visc_r T = 0.0000026693 * sqrt (M_AIR * T) / (3.617 * 3.617 * omega_r T)"

definition dens_r :: "real \<Rightarrow> real \<Rightarrow> real" where
  "dens_r P T = P * 100 / (R_AIR * T)"

definition diff_r :: "real \<Rightarrow> real \<Rightarrow> real" where
  "diff_r T P =
     0.0003640 * (T / sqrt (132 * 647.3)) powr 2.334 * (36.4 * 218) powr (1 / 3)
       * (132 * 647.3) powr (5 / 12) * sqrt (1 / M_AIR + 1 / M_H2O) / (P / 1013.25) * 0.0001"

definition evap_r :: "real \<Rightarrow> real" where
  "evap_r T = (313.15 - T) / 30 * (- 71100) + 2407300"

definition emis_r :: "real \<Rightarrow> real \<Rightarrow> real" where
  "emis_r T rh = 0.575 * (rh * esat_r T) powr 0.143"

definition hcyl_r :: "real \<Rightarrow> real \<Rightarrow> real \<Rightarrow> real" where
  "hcyl_r T P speed =
     0.281 * (speed * dens_r P T * D_WICK / visc_r T) powr 0.6 * Pr_air powr 0.44
       * ((Cp + 1.25 * R_AIR) * visc_r T) / D_WICK"

definition Fatm_r :: "real \<Rightarrow> real \<Rightarrow> real \<Rightarrow> real \<Rightarrow> real" where
  "Fatm_r T rh s Tp =
     STEFANB * EMIS_WICK * (0.5 * (emis_r T rh * T powr 4 + EMIS_SFC * T powr 4) - Tp powr 4)
       + (1 - ALB_WICK) * s * (1 + 0.25 * D_WICK / L_WICK + ALB_SFC)"

text \<open>
  An input of \<^verbatim>\<open>calc_wbgt\<close> on which the globe and the natural wet bulb converge in
  their first pass and the psychrometric wet bulb never does. The air temperature is
  46.88 degC (320.03 K) and the dew point 320 K, so the relative humidity is
  \<open>100 * rh_K\<close>, about 99.85 percent. The measured irradiance \<open>s_K\<close>, about -48.9 W/m2,
  makes the first globe estimate equal to the air temperature. The pressure \<open>P_K\<close>, about
  106 mb, is the saturation vapour pressure at 320.003 K, the second estimate of the
  psychrometric loop, where \<^verbatim>\<open>Pair-ewick\<close> is zero. The wind speed \<open>speed_K\<close>, about
  486 m/s, gives the wick the heat transfer coefficient \<open>h_K\<close>, for which the first
  estimate of the natural wet bulb is the dew point.
\<close>

definition rh_K :: real where
  "rh_K = esat_r 320 / esat_r 320.03"

definition s_K :: real where
  "s_K = (320.03 powr 4 - 0.5 * (emis_r 320.03 rh_K * 320.03 powr 4 + EMIS_SFC * 320.03 powr 4))
           * (2 * STEFANB * EMIS_GLOBE) / ((1 - ALB_GLOBE) * (1 + ALB_SFC))"

definition P_K :: real where
  "P_K = esat_r 320.003"

definition h_K :: real where
  "h_K = Fatm_r 320.03 rh_K s_K 320 / (320 - 320.03)"

definition X_K :: real where
  "X_K = h_K * D_WICK / ((Cp + 1.25 * R_AIR) * visc_r 320.015 * 0.281 * Pr_air powr 0.44)"

definition speed_K :: real where
  "speed_K = X_K powr (5 / 3) * visc_r 320.015 / (dens_r P_K 320.015 * D_WICK)"

definition out_K :: wbgt_out where
  "out_K = \<lparr>est_speed = Fin speed_K, solar_adj = Fin s_K, Tg = Fin 46.88, Tnwb = Fin 46.85,
            Tpsy = SENTINEL, Twbg = Fin 46.859\<rparr>"

section \<open>Properties\<close>

lemma stab_i_day: "daytime \<noteq> 0 \<Longrightarrow> stab_i daytime speed \<in> {0, 1, 2, 3, 4}"
  by (simp add: stab_i_def)

lemma stab_j_day: "daytime \<noteq> 0 \<Longrightarrow> stab_j daytime solar dT \<in> {0, 1, 2, 3}"
  by (simp add: stab_j_def)

lemma stab_i_night: "stab_i 0 speed \<in> {0, 1, 2}"
  by (simp add: stab_i_def)

lemma stab_j_night: "stab_j 0 solar dT \<in> {5, 6}"
  by (simp add: stab_j_def)

lemma stab_srdt_range: "stab_srdt daytime speed solar dT \<in> {1, 2, 3, 4, 5, 6}"
proof (cases "daytime = 0")
  case True
  from stab_i_night [of speed] stab_j_night [of solar dT] show ?thesis
    unfolding stab_srdt_def True by (auto simp: lsrdt_def)
next
  case False
  from stab_i_day [OF False, of speed] stab_j_day [OF False, of solar dT] show ?thesis
    unfolding stab_srdt_def by (auto simp: lsrdt_def)
qed

text \<open>
  C4. For every daytime flag, wind speed, solar irradiance and temperature gradient
  (NaN and the infinities included) \<^verbatim>\<open>stab_srdt\<close> returns a class from 1 to 6: the
  rows and columns it selects never meet a zero entry of \<^verbatim>\<open>lsrdt\<close>. The index
  \<^verbatim>\<open>stability_class-1\<close> that \<^verbatim>\<open>est_wind_speed\<close> then uses is within the six
  entries of both exponent tables, so \<^verbatim>\<open>est_wind_speed\<close> reads inside them.
\<close>

theorem C4_stab_srdt_class_in_bounds:
  "stab_srdt daytime speed solar dT \<in> {1, 2, 3, 4, 5, 6}
   \<and> nat (stab_srdt daytime speed solar dT - 1) < length urban_exp
   \<and> nat (stab_srdt daytime speed solar dT - 1) < length rural_exp
   \<and> est_wind_speed sp zspeed (stab_srdt daytime speed solar dT) urban min_speed \<noteq> None"
proof -
  have r: "stab_srdt daytime speed solar dT \<in> {1, 2, 3, 4, 5, 6}"
    by (rule stab_srdt_range)
  then have "exp_index_ok (stab_srdt daytime speed solar dT)"
    by (auto simp: exp_index_ok_def)
  with r show ?thesis
    by (auto simp: est_wind_speed_def urban_exp_def rural_exp_def Let_def)
qed

subsection \<open>Domain errors of the solar position\<close>

lemma solarposition_date_None:
  "(year \<noteq> 0 \<and> (year < 1950 \<or> year > 2049))
   \<or> (year \<noteq> 0 \<and> month \<noteq> 0 \<and>
        (month < 1 \<or> month > 12 \<or> flt day (Fin 0) \<or> fgt day (Fin 33)))
   \<or> (year \<noteq> 0 \<and> month = 0 \<and> (flt day (Fin 0) \<or> fgt day (Fin 368)))
   \<or> (year = 0 \<and> (flt days_1900 (Fin 18262) \<or> fgt days_1900 (Fin 54788)))
   \<Longrightarrow> solarposition_date year month day days_1900 = None"
  unfolding solarposition_date_def by (auto simp: Let_def)

text \<open>
  C8. \<^verbatim>\<open>solarposition\<close> returns \<open>-1\<close>, and writes nothing, whenever the latitude is
  below -90 or above 90, the longitude is below -180 or above 180, the year is not zero
  and outside 1950 to 2049, the month is not zero and outside 1 to 12, the day is below
  0 or above its bound (33 with a month, 368 with month 0), or the year is zero and
  \<^verbatim>\<open>days_1900\<close> is outside 18262 to 54788. The latitude and the longitude are checked
  first: when one of them is out of range the result is \<open>-1\<close> whatever the date
  arguments are.
\<close>

theorem C8_solarposition_domain_error:
  assumes "flt latitude (Fin (- 90)) \<or> fgt latitude (Fin 90)
     \<or> flt longitude (Fin (- 180)) \<or> fgt longitude (Fin 180)
     \<or> (year \<noteq> 0 \<and> (year < 1950 \<or> year > 2049))
     \<or> (year \<noteq> 0 \<and> month \<noteq> 0 \<and>
          (month < 1 \<or> month > 12 \<or> flt day (Fin 0) \<or> fgt day (Fin 33)))
     \<or> (year \<noteq> 0 \<and> month = 0 \<and> (flt day (Fin 0) \<or> fgt day (Fin 368)))
     \<or> (year = 0 \<and> (flt days_1900 (Fin 18262) \<or> fgt days_1900 (Fin 54788)))"
  shows "solarposition year month day days_1900 latitude longitude out0 = (- 1, out0)"
proof (cases "flt latitude (Fin (- 90)) \<or> fgt latitude (Fin 90)
     \<or> flt longitude (Fin (- 180)) \<or> fgt longitude (Fin 180)")
  case True
  then show ?thesis by (auto simp: solarposition_def)
next
  case False
  with assms have "solarposition_date year month day days_1900 = None"
    by (intro solarposition_date_None) auto
  then show ?thesis by (simp add: solarposition_def)
qed

theorem C8_witness_lat_91_lon_181:
  "fgt (Fin 91) (Fin 90)
   \<and> solarposition 2005 6 (Fin 21.5) (Fin 0) (Fin 91) (Fin (- 98)) out_nan = (- 1, out_nan)
   \<and> fgt (Fin 181) (Fin 180)
   \<and> solarposition 2005 6 (Fin 21.5) (Fin 0) (Fin 35) (Fin 181) out_nan = (- 1, out_nan)"
  using C8_solarposition_domain_error [of "Fin 91" "Fin (- 98)" 2005 6 "Fin 21.5" "Fin 0" out_nan]
    C8_solarposition_domain_error [of "Fin 35" "Fin 181" 2005 6 "Fin 21.5" "Fin 0" out_nan]
  by (simp add: fgt_def)

subsection \<open>The return code of the solar parameters\<close>

text \<open>
  C9. \<^verbatim>\<open>calc_solar_parameters\<close> returns 0 for every input. With \<^verbatim>\<open>use_spa\<close> zero and
  the latitude 91, \<^verbatim>\<open>solarposition\<close> returns \<open>-1\<close> and writes nothing, the code is
  dropped, and the cosine of the zenith angle, the irradiance and the direct-beam
  fraction are computed from the indeterminate contents of \<^verbatim>\<open>elev\<close> and
  \<^verbatim>\<open>soldist\<close>.
\<close>

theorem C9_calc_solar_parameters_returns_0:
  "fst (calc_solar_parameters spa_calculate junk year month day lat lon use_spa solar cza0) = 0
   \<and> fst (solarposition year month day (Fin 0) (Fin 91) lon junk) = - 1
   \<and> calc_solar_parameters spa_calculate junk year month day (Fin 91) lon 0 solar cza0 =
       (0, \<lparr>sp_solar =
              fst (solar_partition solar
                     (toasolar_of (fcos (fmul (fsub (Fin 90) (altitude junk)) DEG_RAD))
                        (distance junk))),
            sp_cza = fcos (fmul (fsub (Fin 90) (altitude junk)) DEG_RAD),
            sp_fdir =
              snd (solar_partition solar
                     (toasolar_of (fcos (fmul (fsub (Fin 90) (altitude junk)) DEG_RAD))
                        (distance junk)))\<rparr>)"
  by (simp add: calc_solar_parameters_def Let_def solar_geometry_def solarposition_def fgt_def)

subsection \<open>Sun below the horizon\<close>

text \<open>
  C7. When the cosine of the zenith angle that \<^verbatim>\<open>calc_solar_parameters\<close> leaves in
  \<^verbatim>\<open>*cza\<close> is below 0.00873, the adjusted irradiance and the direct-beam fraction are
  both 0.
\<close>

theorem C7_low_sun_zeroes_solar_and_fdir:
  assumes "out = snd (calc_solar_parameters spa_calculate junk year month day lat lon
                        use_spa solar cza0)"
    and "flt (sp_cza out) (Fin 0.00873)"
  shows "sp_solar out = Fin 0 \<and> sp_fdir out = Fin 0"
  using assms
  by (simp add: calc_solar_parameters_def Let_def toasolar_of_def CZA_MIN_def
      solar_partition_def fgt_def)

theorem C7_witness_zenith_2_radians:
  "flt (sp_cza (snd (calc_solar_parameters spa_low_sun out_nan 2005 6 (Fin 21.5) (Fin 35)
                       (Fin (- 98)) 1 (Fin 800) NaN))) (Fin 0.00873)
   \<and> sp_solar (snd (calc_solar_parameters spa_low_sun out_nan 2005 6 (Fin 21.5) (Fin 35)
                       (Fin (- 98)) 1 (Fin 800) NaN)) = Fin 0
   \<and> sp_fdir (snd (calc_solar_parameters spa_low_sun out_nan 2005 6 (Fin 21.5) (Fin 35)
                       (Fin (- 98)) 1 (Fin 800) NaN)) = Fin 0"
proof -
  have c: "sp_cza (snd (calc_solar_parameters spa_low_sun out_nan 2005 6 (Fin 21.5) (Fin 35)
                       (Fin (- 98)) 1 (Fin 800) NaN)) = Fin (cos 2)"
    by (simp add: calc_solar_parameters_def Let_def solar_geometry_def spa_low_sun_def
        DEG_RAD_def)
  have "cos (2::real) < 0.00873"
    by (rule less_trans [OF cos_two_less_zero]) simp
  then have h: "flt (sp_cza (snd (calc_solar_parameters spa_low_sun out_nan 2005 6 (Fin 21.5)
                       (Fin 35) (Fin (- 98)) 1 (Fin 800) NaN))) (Fin 0.00873)"
    unfolding c by simp
  from C7_low_sun_zeroes_solar_and_fdir [OF refl h] h show ?thesis by simp
qed

subsection \<open>The direct-beam fraction\<close>

lemma clamp_range:
  "fle (Fin 0) (max_c (min_c x (Fin 0.9)) (Fin 0)) \<and>
   fle (max_c (min_c x (Fin 0.9)) (Fin 0)) (Fin 0.9)"
  by (cases x) (auto simp: max_c_def min_c_def fgt_def)

lemma solar_partition_fdir:
  "snd (solar_partition solar toasolar) =
     (if fgt toasolar (Fin 0) \<and> fgt (min_c (fdiv solar toasolar) NORMSOLAR_MAX) (Fin 0)
      then fdir_spec (min_c (fdiv solar toasolar) NORMSOLAR_MAX)
      else Fin 0)"
  by (simp add: solar_partition_def Let_def fdir_spec_def)

lemma solar_partition_range:
  "fle (Fin 0) (snd (solar_partition solar toasolar)) \<and>
   fle (snd (solar_partition solar toasolar)) (Fin 0.9)"
  unfolding solar_partition_fdir fdir_spec_def using clamp_range by simp

text \<open>
  C6. In \<^verbatim>\<open>calc_solar_parameters\<close> the normalized irradiance
  \<open>normsolar = min(solar / toasolar, 0.85)\<close> is computed when the irradiance at the top of the
  atmosphere is positive. When it is computed and positive, the direct-beam fraction is
  \<open>exp(3 - 1.34 normsolar - 1.65 / normsolar)\<close> clamped to 0 and 0.9; in every other case it is 0.
  The returned fraction always lies between 0 and 0.9.
\<close>

theorem C6_fdir_formula_and_range:
  assumes "out = snd (calc_solar_parameters spa_calculate junk year month day lat lon
                        use_spa solar cza0)"
    and "toasolar = toasolar_of (sp_cza out)
                      (snd (solar_geometry spa_calculate junk year month day lat lon
                              use_spa cza0))"
    and "normsolar = min_c (fdiv solar toasolar) NORMSOLAR_MAX"
  shows "(fgt toasolar (Fin 0) \<and> fgt normsolar (Fin 0) \<longrightarrow> sp_fdir out = fdir_spec normsolar)
       \<and> (\<not> (fgt toasolar (Fin 0) \<and> fgt normsolar (Fin 0)) \<longrightarrow> sp_fdir out = Fin 0)
       \<and> fle (Fin 0) (sp_fdir out) \<and> fle (sp_fdir out) (Fin 0.9)"
proof -
  have f: "sp_fdir out = snd (solar_partition solar toasolar)"
    using assms(1,2) by (simp add: calc_solar_parameters_def Let_def)
  show ?thesis
    unfolding f using solar_partition_range [of solar toasolar]
    by (simp add: solar_partition_fdir assms(3))
qed

theorem C6_witness_half_of_toa:
  "fgt (Fin 1367) (Fin 0) \<and> fgt (Fin 0.5) (Fin 0)
   \<and> sp_fdir (snd (calc_solar_parameters spa_zenith_0 out_nan 2005 6 (Fin 21.5) (Fin 35)
                      (Fin (- 98)) 1 (Fin 683.5) NaN)) = fdir_spec (Fin 0.5)
   \<and> fle (Fin 0) (sp_fdir (snd (calc_solar_parameters spa_zenith_0 out_nan 2005 6 (Fin 21.5)
                      (Fin 35) (Fin (- 98)) 1 (Fin 683.5) NaN)))
   \<and> fle (sp_fdir (snd (calc_solar_parameters spa_zenith_0 out_nan 2005 6 (Fin 21.5)
                      (Fin 35) (Fin (- 98)) 1 (Fin 683.5) NaN))) (Fin 0.9)"
proof -
  have t: "toasolar_of
             (sp_cza (snd (calc_solar_parameters spa_zenith_0 out_nan 2005 6 (Fin 21.5)
                             (Fin 35) (Fin (- 98)) 1 (Fin 683.5) NaN)))
             (snd (solar_geometry spa_zenith_0 out_nan 2005 6 (Fin 21.5) (Fin 35)
                     (Fin (- 98)) 1 NaN)) = Fin 1367"
    by (simp add: calc_solar_parameters_def Let_def solar_geometry_def spa_zenith_0_def
        DEG_RAD_def toasolar_of_def CZA_MIN_def SOLAR_CONST_def max_c_def fgt_def)
  have n: "min_c (fdiv (Fin 683.5) (Fin 1367)) NORMSOLAR_MAX = Fin 0.5"
    by (simp add: min_c_def NORMSOLAR_MAX_def)
  from C6_fdir_formula_and_range [OF refl refl refl, of spa_zenith_0 out_nan 2005 6
      "Fin 21.5" "Fin 35" "Fin (- 98)" 1 "Fin 683.5" NaN]
  show ?thesis
    unfolding t n by (auto simp: fgt_def)
qed

subsection \<open>The floor of the estimated wind speed\<close>

lemma float_exp_013: "float_exp 0.13 = - 3"
  by (simp add: float_exp_def pow2_def eval_nat_numeral)

lemma round_even_013: "round_even (872415232 / 100) = 8724152"
proof -
  have f: "\<lfloor>(872415232 :: real) / 100\<rfloor> = 8724152" by linarith
  show ?thesis unfolding round_even_def f by simp
qed

lemma to_float_013: "to_float (Fin 0.13) = Fin (1090519 / 8388608)"
proof -
  have u: "pow2 (- 3 - 23) = 1 / 67108864" by (simp add: pow2_def)
  have q: "(0.13 :: real) / (1 / 67108864) = 872415232 / 100" by simp
  have b: "\<not> pow2 128 \<le> \<bar>real_of_int 8724152 * (1 / 67108864)\<bar>" by (simp add: pow2_def)
  show ?thesis
    unfolding to_float.simps float_exp_013 u q round_even_013 Let_def using b by simp
qed

lemma to_float_not_nan: "x \<noteq> NaN \<Longrightarrow> to_float x \<noteq> NaN"
  by (cases x) (auto simp: Let_def inf_sign_def)

lemma max_c_floor_cases:
  "max_c min_speed MIN_SPEED = MIN_SPEED \<or> max_c min_speed MIN_SPEED = min_speed"
  by (simp add: max_c_def)

lemma floor_speed_not_nan: "to_float (max_c min_speed MIN_SPEED) \<noteq> NaN"
proof -
  have "max_c min_speed MIN_SPEED \<noteq> NaN"
    by (cases min_speed) (auto simp: max_c_def fgt_def MIN_SPEED_def)
  then show ?thesis by (rule to_float_not_nan)
qed

lemma max_c_ge: "m \<noteq> NaN \<Longrightarrow> fge (max_c x m) m"
  by (cases x; cases m) (auto simp: max_c_def fgt_def fge_def)

lemma wbgt_speed_ge:
  assumes "m \<noteq> NaN"
  shows "\<exists>v. wbgt_speed speed zspeed solar dT urban m cza = Some v \<and> fge v m"
proof (cases "feq zspeed REF_HEIGHT")
  case True
  then show ?thesis using max_c_ge [OF assms] by (simp add: wbgt_speed_def)
next
  case False
  have "exp_index_ok (stab_srdt (if fgt cza (Fin 0) then 1 else 0) speed solar dT)"
    using stab_srdt_range [of "if fgt cza (Fin 0) then 1 else 0" speed solar dT]
    by (auto simp: exp_index_ok_def)
  then show ?thesis using False max_c_ge [OF assms]
    by (simp add: wbgt_speed_def est_wind_speed_def Let_def)
qed

lemma calc_wbgt_unfold:
  "calc_wbgt spa_calculate junk cza0 year month day hour minute second gmt avg lat lon
     solar pres Tair relhum speed zspeed dT urban use_spa min_speed d_globe =
   (let sp = wbgt_solar spa_calculate junk cza0 year month day hour minute second gmt avg
               lat lon solar use_spa
    in case wbgt_speed speed zspeed (sp_solar sp) dT urban
              (to_float (max_c min_speed MIN_SPEED)) (sp_cza sp) of
         None \<Rightarrow> None
       | Some speed' \<Rightarrow>
           let d_globe' = (if feq d_globe (Fin 0.0) then Fin D_GLOBE else d_globe);
               tk = fadd Tair (Fin 273.15);
               rh = fmul (Fin 0.01) relhum;
               tg = Tglobe tk rh pres speed' (sp_solar sp) (sp_fdir sp) (sp_cza sp) d_globe';
               tnwb = Twb tk rh pres speed' (sp_solar sp) (sp_fdir sp) (sp_cza sp) 1;
               tpsy = Twb tk rh pres speed' (sp_solar sp) (sp_fdir sp) (sp_cza sp) 0;
               twbg = fadd (fadd (fmul (Fin 0.1) Tair) (fmul (Fin 0.2) tg))
                           (fmul (Fin 0.7) tnwb)
           in if feq tg SENTINEL \<or> feq tnwb SENTINEL
              then Some (- 1, \<lparr>est_speed = speed', solar_adj = sp_solar sp, Tg = tg,
                                Tnwb = tnwb, Tpsy = tpsy, Twbg = SENTINEL\<rparr>)
              else Some (0, \<lparr>est_speed = speed', solar_adj = sp_solar sp, Tg = tg,
                             Tnwb = tnwb, Tpsy = tpsy, Twbg = twbg\<rparr>))"
  by (simp add: calc_wbgt_def wbgt_solar_def Let_def)

lemma floor_zero: "to_float (max_c (Fin 0) MIN_SPEED) = Fin (1090519 / 8388608)"
  using to_float_013 by (simp add: max_c_def fgt_def MIN_SPEED_def)

lemma est_speed_floor:
  "\<exists>rc out. calc_wbgt spa_calculate junk cza0 year month day hour minute second gmt avg
       lat lon solar pres Tair relhum speed zspeed dT urban use_spa min_speed d_globe
       = Some (rc, out)
     \<and> fge (est_speed out) (to_float (max_c min_speed MIN_SPEED))"
proof -
  let ?sp = "wbgt_solar spa_calculate junk cza0 year month day hour minute second gmt avg
               lat lon solar use_spa"
  obtain v where v: "wbgt_speed speed zspeed (sp_solar ?sp) dT urban
                       (to_float (max_c min_speed MIN_SPEED)) (sp_cza ?sp) = Some v"
    and g: "fge v (to_float (max_c min_speed MIN_SPEED))"
    using wbgt_speed_ge [OF floor_speed_not_nan] by blast
  show ?thesis
    unfolding calc_wbgt_unfold Let_def v using g by simp
qed

text \<open>
  C5, as stated, fails: with a measured speed of 0 m/s at the reference height and a
  configured minimum of 0 m/s, \<^verbatim>\<open>calc_wbgt\<close> writes the \<^verbatim>\<open>float\<close> nearest to 0.13 to
  \<^verbatim>\<open>*est_speed\<close>, which is 1090519 / 8388608 = 0.129999995..., less than
  \<^verbatim>\<open>max(min_speed, MIN_SPEED)\<close> = 0.13. (Norman, Oklahoma, 21 June 2005, noon local
  standard time, with the solar position computed by \<^verbatim>\<open>solarposition\<close>.)
\<close>

theorem C5_counterexample_calm_air:
  "map_option (\<lambda>r. est_speed (snd r))
     (calc_wbgt spa_zenith_0 out_nan NaN 2005 6 21 12 0 0 (- 6) 1 (Fin 35) (Fin (- 98))
        (Fin 800) (Fin 1013) (Fin 33) (Fin 50) (Fin 0) (Fin 2) (Fin 0) 0 0 (Fin 0) (Fin 0))
     = Some (Fin (1090519 / 8388608))
   \<and> \<not> fge (Fin (1090519 / 8388608)) (max_c (Fin 0) MIN_SPEED)"
proof -
  have v: "wbgt_speed (Fin 0) (Fin 2) s (Fin 0) 0 (to_float (max_c (Fin 0) MIN_SPEED)) c
             = Some (Fin (1090519 / 8388608))" for s c
    unfolding floor_zero
    by (simp add: wbgt_speed_def REF_HEIGHT_def feq_def max_c_def fgt_def)
  show ?thesis
    unfolding calc_wbgt_unfold Let_def v
    by (simp add: max_c_def fgt_def fge_def MIN_SPEED_def)
qed

text \<open>
  C5, amended. For every input \<^verbatim>\<open>calc_wbgt\<close> returns (no table is read out of range), and
  the wind speed it writes to \<^verbatim>\<open>*est_speed\<close> is at least the value that line 620 stores
  in \<^verbatim>\<open>min_speed\<close>: \<^verbatim>\<open>max(min_speed, MIN_SPEED)\<close> converted to \<^verbatim>\<open>float\<close>, on the path
  through \<^verbatim>\<open>est_wind_speed\<close> and on the path that floors the measured speed. The macro
  gives the configured minimum or 0.13, and the \<^verbatim>\<open>float\<close> of 0.13 is 1090519 / 8388608.
\<close>

theorem C5_est_speed_at_least_float_floor:
  "(\<exists>rc out. calc_wbgt spa_calculate junk cza0 year month day hour minute second gmt avg
       lat lon solar pres Tair relhum speed zspeed dT urban use_spa min_speed d_globe
       = Some (rc, out)
     \<and> fge (est_speed out) (to_float (max_c min_speed MIN_SPEED)))
   \<and> (to_float (max_c min_speed MIN_SPEED) = to_float min_speed
      \<or> to_float (max_c min_speed MIN_SPEED) = Fin (1090519 / 8388608))"
  using est_speed_floor [of spa_calculate junk cza0 year month day hour minute second gmt avg
       lat lon solar pres Tair relhum speed zspeed dT urban use_spa min_speed d_globe]
    max_c_floor_cases [of min_speed] to_float_013
  by (auto simp: MIN_SPEED_def)

subsection \<open>The psychrometric wet bulb ignores the radiative inputs\<close>

lemma Twb_new_of_rad0:
  "Twb_new_of Tair rh P_air speed solar fdir cza 0 Tp =
   Twb_new_of Tair rh P_air speed solar' fdir' cza' 0 Tp"
  by (simp add: Twb_new_of_def Let_def)

lemma Twb_loop_rad0:
  "rad = 0 \<Longrightarrow> Twb_loop Tair rh P_air speed solar fdir cza rad Tp it =
   Twb_loop Tair rh P_air speed solar' fdir' cza' rad Tp it"
proof (induction Tair rh P_air speed solar fdir cza rad Tp it rule: Twb_loop.induct)
  case (1 Tair rh P_air speed solar fdir cza rad Twb_prev iter)
  note n = Twb_new_of_rad0 [of Tair rh P_air speed solar fdir cza Twb_prev solar' fdir' cza']
  show ?case
    apply (subst Twb_loop.simps)
    apply (subst (2) Twb_loop.simps)
    using 1 n by (auto simp: Let_def)
qed

text \<open>
  C10. Two calls of \<^verbatim>\<open>Twb\<close> with \<^verbatim>\<open>rad = 0\<close> that differ only in \<^verbatim>\<open>solar\<close>,
  \<^verbatim>\<open>fdir\<close> and \<^verbatim>\<open>cza\<close> return the same value.
\<close>

theorem C10_psychrometric_independent_of_radiation:
  "Twb Tair rh P_air speed solar fdir cza 0 = Twb Tair rh P_air speed solar' fdir' cza' 0"
  using Twb_loop_rad0 [of 0 Tair rh P_air speed solar fdir cza _ 0 solar' fdir' cza']
  by (simp add: Twb_def Let_def)

subsection \<open>The iteration cap\<close>

lemma Tglobe_loop_iter:
  "snd (snd (Tglobe_loop Tair rh P_air speed solar fdir cza d Tp iter))
     \<le> max MAX_ITER (iter + 1)"
proof (induction Tair rh P_air speed solar fdir cza d Tp iter rule: Tglobe_loop.induct)
  case (1 Tair rh P_air speed solar fdir cza d_globe Tglobe_prev iter)
  show ?case
    apply (subst Tglobe_loop.simps)
    using 1 by (auto simp: Let_def MAX_ITER_def)
qed

lemma Twb_loop_iter:
  "snd (snd (Twb_loop Tair rh P_air speed solar fdir cza rad Tp iter))
     \<le> max MAX_ITER (iter + 1)"
proof (induction Tair rh P_air speed solar fdir cza rad Tp iter rule: Twb_loop.induct)
  case (1 Tair rh P_air speed solar fdir cza rad Twb_prev iter)
  show ?case
    apply (subst Twb_loop.simps)
    using 1 by (auto simp: Let_def MAX_ITER_def)
qed

text \<open>When no test from pass \<open>k\<close> on succeeds, the loop runs to the cap.\<close>

lemma Tglobe_loop_never:
  assumes "\<forall>j. k \<le> j \<and> j < 50 \<longrightarrow> \<not> Tglobe_test Tair rh P_air speed solar fdir cza d T0 j"
    and "k < 50"
  shows "Tglobe_loop Tair rh P_air speed solar fdir cza d
           (Tglobe_prev_at Tair rh P_air speed solar fdir cza d T0 k) (int k) =
         (Tglobe_new_of Tair rh P_air speed solar fdir cza d
            (Tglobe_prev_at Tair rh P_air speed solar fdir cza d T0 49), False, 50)"
  using assms
proof (induction "49 - k" arbitrary: k)
  case 0
  then have k: "k = 49" by simp
  from 0 have "\<not> Tglobe_test Tair rh P_air speed solar fdir cza d T0 49" by simp
  then show ?case unfolding k
    apply (subst Tglobe_loop.simps)
    by (simp add: Let_def MAX_ITER_def Tglobe_test_def)
next
  case (Suc n)
  then have lt: "k < 49" by simp
  from Suc have t: "\<not> Tglobe_test Tair rh P_air speed solar fdir cza d T0 k" by simp
  have ih: "Tglobe_loop Tair rh P_air speed solar fdir cza d
           (Tglobe_prev_at Tair rh P_air speed solar fdir cza d T0 (Suc k)) (int (Suc k)) =
         (Tglobe_new_of Tair rh P_air speed solar fdir cza d
            (Tglobe_prev_at Tair rh P_air speed solar fdir cza d T0 49), False, 50)"
    using Suc by (intro Suc(1)) auto
  have i: "int k + 1 = int (Suc k)" by simp
  show ?case
    apply (subst Tglobe_loop.simps)
    using t lt ih unfolding Tglobe_test_def Let_def MAX_ITER_def i
    by simp
qed

lemma Twb_loop_never:
  assumes "\<forall>j. k \<le> j \<and> j < 50 \<longrightarrow> \<not> Twb_test Tair rh P_air speed solar fdir cza rad T0 j"
    and "k < 50"
  shows "Twb_loop Tair rh P_air speed solar fdir cza rad
           (Twb_prev_at Tair rh P_air speed solar fdir cza rad T0 k) (int k) =
         (Twb_new_of Tair rh P_air speed solar fdir cza rad
            (Twb_prev_at Tair rh P_air speed solar fdir cza rad T0 49), False, 50)"
  using assms
proof (induction "49 - k" arbitrary: k)
  case 0
  then have k: "k = 49" by simp
  from 0 have "\<not> Twb_test Tair rh P_air speed solar fdir cza rad T0 49" by simp
  then show ?case unfolding k
    apply (subst Twb_loop.simps)
    by (simp add: Let_def MAX_ITER_def Twb_test_def)
next
  case (Suc n)
  then have lt: "k < 49" by simp
  from Suc have t: "\<not> Twb_test Tair rh P_air speed solar fdir cza rad T0 k" by simp
  have ih: "Twb_loop Tair rh P_air speed solar fdir cza rad
           (Twb_prev_at Tair rh P_air speed solar fdir cza rad T0 (Suc k)) (int (Suc k)) =
         (Twb_new_of Tair rh P_air speed solar fdir cza rad
            (Twb_prev_at Tair rh P_air speed solar fdir cza rad T0 49), False, 50)"
    using Suc by (intro Suc(1)) auto
  have i: "int k + 1 = int (Suc k)" by simp
  show ?case
    apply (subst Twb_loop.simps)
    using t lt ih unfolding Twb_test_def Let_def MAX_ITER_def i
    by simp
qed

lemma Tglobe_never:
  assumes "\<forall>k<50. \<not> Tglobe_test Tair rh P_air speed solar fdir cza
                      (if feq d_globe (Fin 0.0) then Fin D_GLOBE else d_globe) Tair k"
  shows "snd (snd (Tglobe_loop Tair rh P_air speed solar fdir cza
                     (if feq d_globe (Fin 0.0) then Fin D_GLOBE else d_globe) Tair 0)) = 50
         \<and> Tglobe Tair rh P_air speed solar fdir cza d_globe = SENTINEL"
  using Tglobe_loop_never [of 0 Tair rh P_air speed solar fdir cza
      "if feq d_globe (Fin 0.0) then Fin D_GLOBE else d_globe" Tair] assms
  by (simp add: Tglobe_def Let_def)

lemma Twb_never:
  assumes "\<forall>k<50. \<not> Twb_test Tair rh P_air speed solar fdir cza rad
                      (dew_point (fmul rh (esat Tair 0)) 0) k"
  shows "snd (snd (Twb_loop Tair rh P_air speed solar fdir cza rad
                     (dew_point (fmul rh (esat Tair 0)) 0) 0)) = 50
         \<and> Twb Tair rh P_air speed solar fdir cza rad = SENTINEL"
  using Twb_loop_never [of 0 Tair rh P_air speed solar fdir cza rad
      "dew_point (fmul rh (esat Tair 0)) 0"] assms
  by (simp add: Twb_def Let_def)

text \<open>
  C2. The loops of \<^verbatim>\<open>Tglobe\<close> and \<^verbatim>\<open>Twb\<close> are total functions (their termination is
  proved with the measure \<open>MAX_ITER - iter\<close>), and from whatever estimate they start
  they make at most 50 passes. When none of the 50 convergence tests succeeds, the loop
  makes exactly 50 passes and the solver returns -9999.
\<close>

theorem C2_solvers_stop_at_50_passes:
  "snd (snd (Tglobe_loop Tair rh P_air speed solar fdir cza d_globe T0 0)) \<le> 50
   \<and> snd (snd (Twb_loop Tair rh P_air speed solar fdir cza rad T0 0)) \<le> 50
   \<and> ((\<forall>k<50. \<not> Tglobe_test Tair rh P_air speed solar fdir cza
                    (if feq d_globe (Fin 0.0) then Fin D_GLOBE else d_globe) Tair k)
        \<longrightarrow> snd (snd (Tglobe_loop Tair rh P_air speed solar fdir cza
                         (if feq d_globe (Fin 0.0) then Fin D_GLOBE else d_globe) Tair 0)) = 50
            \<and> Tglobe Tair rh P_air speed solar fdir cza d_globe = SENTINEL)
   \<and> ((\<forall>k<50. \<not> Twb_test Tair rh P_air speed solar fdir cza rad
                    (dew_point (fmul rh (esat Tair 0)) 0) k)
        \<longrightarrow> snd (snd (Twb_loop Tair rh P_air speed solar fdir cza rad
                         (dew_point (fmul rh (esat Tair 0)) 0) 0)) = 50
            \<and> Twb Tair rh P_air speed solar fdir cza rad = SENTINEL)"
  using Tglobe_loop_iter [of Tair rh P_air speed solar fdir cza d_globe T0 0]
    Twb_loop_iter [of Tair rh P_air speed solar fdir cza rad T0 0]
    Tglobe_never [of Tair rh P_air speed solar fdir cza d_globe]
    Twb_never [of Tair rh P_air speed solar fdir cza rad]
  by (simp add: MAX_ITER_def)

text \<open>A NaN as air temperature makes every pass of both loops produce a NaN.\<close>

lemma fadd_NaN_right [simp]: "fadd x NaN = NaN" by (cases x) simp_all

lemma fmul_NaN_right [simp]: "fmul x NaN = NaN" by (cases x) simp_all

lemma fdiv_NaN_right [simp]: "fdiv x NaN = NaN" by (cases x) simp_all

lemma fsub_NaN_right [simp]: "fsub x NaN = NaN" by (simp add: fsub_def)

lemma fsub_NaN_left [simp]: "fsub NaN x = NaN" by (simp add: fsub_def)

lemma flt_NaN_left [simp]: "flt NaN x = False" by (cases x) simp_all

lemma Tglobe_new_of_NaN: "Tglobe_new_of NaN rh P_air speed solar fdir cza d p = NaN"
  by (simp add: Tglobe_new_of_def Let_def)

lemma Twb_new_of_NaN: "Twb_new_of NaN rh P_air speed solar fdir cza rad p = NaN"
  by (simp add: Twb_new_of_def Let_def)

lemma Tglobe_test_NaN: "\<not> Tglobe_test NaN rh P_air speed solar fdir cza d T0 k"
  by (simp add: Tglobe_test_def Tglobe_new_of_NaN)

lemma Twb_test_NaN: "\<not> Twb_test NaN rh P_air speed solar fdir cza rad T0 k"
  by (simp add: Twb_test_def Twb_new_of_NaN)


theorem C2_witness_NaN_air_temperature:
  "Tglobe NaN (Fin 0.5) (Fin 1013) (Fin 2) (Fin 800) (Fin 0.7) (Fin 0.8) (Fin 0) = SENTINEL
   \<and> Twb NaN (Fin 0.5) (Fin 1013) (Fin 2) (Fin 800) (Fin 0.7) (Fin 0.8) 1 = SENTINEL"
  using C2_solvers_stop_at_50_passes
      [of NaN "Fin 0.5" "Fin 1013" "Fin 2" "Fin 800" "Fin 0.7" "Fin 0.8" "Fin 0" NaN 1]
    Tglobe_test_NaN Twb_test_NaN
  by simp


subsection \<open>Failure of a solver and the composite index\<close>




subsection \<open>The solvers on finite arguments\<close>

lemma fpow_pos: "0 < a \<Longrightarrow> fpow (Fin a) y = Fin (a powr y)"
  by simp

lemma esat_Fin: "T \<noteq> 32.18 \<Longrightarrow> esat (Fin T) 0 = Fin (esat_r T)"
  by (simp add: esat_def esat_r_def fsub_def)

lemma esat_r_pos: "0 < esat_r T"
  by (simp add: esat_r_def)

lemma dew_point_esat:
  assumes "T \<noteq> 32.18"
  shows "dew_point (Fin (esat_r T)) 0 = Fin T"
proof -
  define y where "y = (T - 273.15) / (T - 32.18)"
  have e: "esat_r T / (6.1121 * 1.004) = exp (17.502 * y)"
    by (simp add: esat_r_def y_def)
  have l: "flog (fdiv (Fin (esat_r T)) (Fin (6.1121 * 1.004))) = Fin (17.502 * y)"
    using e by (simp del: times_divide_eq_right)
  have t: "T - 32.18 \<noteq> 0" using assms by simp
  have y1: "1 - y = 240.97 / (T - 32.18)"
    unfolding y_def using t by (simp add: field_simps)
  then have "1 - y \<noteq> 0" using t by simp
  then have d: "17.502 - 17.502 * y \<noteq> 0" by simp
  have "240.97 * (17.502 * y) / (17.502 - 17.502 * y) = 240.97 * y / (1 - y)"
    using \<open>1 - y \<noteq> 0\<close> by (simp add: field_simps)
  also have "\<dots> = y * (T - 32.18)"
    unfolding y1 using t by simp
  also have "\<dots> = T - 273.15"
    unfolding y_def using t by simp
  finally have v: "273.15 + 240.97 * (17.502 * y) / (17.502 - 17.502 * y) = T"
    by simp
  show ?thesis
    unfolding dew_point_def Let_def l using d v by (simp add: fsub_def)
qed

lemma omega_r_pos: "T < 1400 \<Longrightarrow> 0 < omega_r T"
  by (simp add: omega_r_def)

lemma viscosity_Fin:
  assumes "0 < T" "T < 1400"
  shows "viscosity (Fin T) = Fin (visc_r T)" and "0 < visc_r T"
proof -
  have o: "0 < omega_r T" using assms by (rule_tac omega_r_pos)
  have m: "0 < M_AIR * T" using assms by (simp add: M_AIR_def)
  show "0 < visc_r T" using o m by (simp add: visc_r_def)
  show "viscosity (Fin T) = Fin (visc_r T)"
    using o m by (simp add: viscosity_def visc_r_def omega_r_def Let_def fsub_def)
qed

lemma thermal_cond_Fin:
  assumes "0 < T" "T < 1400"
  shows "thermal_cond (Fin T) = Fin ((Cp + 1.25 * R_AIR) * visc_r T)"
  by (simp add: thermal_cond_def viscosity_Fin [OF assms])

lemma R_AIR_pos: "0 < R_AIR"
  by (simp add: R_AIR_def R_GAS_def M_AIR_def)

lemma air_density_Fin: "0 < T \<Longrightarrow> air_density (Fin P) (Fin T) = Fin (dens_r P T)"
  using R_AIR_pos by (simp add: air_density_def dens_r_def)

lemma diffusivity_Fin:
  assumes "0 < T" "0 < P"
  shows "diffusivity (Fin T) (Fin P) = Fin (diff_r T P)" and "0 < diff_r T P"
proof -
  have s: "0 < T / sqrt (132 * 647.3)" using assms by simp
  show "diffusivity (Fin T) (Fin P) = Fin (diff_r T P)"
    using assms s
    by (simp add: diffusivity_def diff_r_def Let_def M_AIR_def M_H2O_def fpow_pos
        del: fpow.simps)
  show "0 < diff_r T P"
    using assms by (simp add: diff_r_def M_AIR_def M_H2O_def)
qed

lemma evap_Fin: "evap (Fin T) = Fin (evap_r T)"
  by (simp add: evap_def evap_r_def fsub_def)

lemma Pr_air_pos: "0 < Pr_air"
  using R_AIR_pos by (simp add: Pr_air_def Cp_def add_pos_pos)

lemma emis_atm_Fin:
  assumes "T \<noteq> 32.18" "0 < rh"
  shows "emis_atm (Fin T) (Fin rh) = Fin (emis_r T rh)"
  using assms esat_r_pos [of T]
  by (simp add: emis_atm_def emis_r_def esat_Fin Let_def fpow_pos del: fpow.simps)

lemma dens_r_pos: "0 < P \<Longrightarrow> 0 < T \<Longrightarrow> 0 < dens_r P T"
  using R_AIR_pos by (simp add: dens_r_def)

lemma h_cylinder_Fin:
  assumes "0 < T" "T < 1400" "0 < P" "0 < speed"
  shows "h_cylinder_in_air (Fin D_WICK) (Fin L_WICK) (Fin T) (Fin P) (Fin speed)
           = Fin (hcyl_r T P speed)"
    and "0 < hcyl_r T P speed"
proof -
  note v = viscosity_Fin [OF assms(1,2)]
  have d: "0 < dens_r P T" using assms by (simp add: dens_r_pos)
  have r: "0 < speed * dens_r P T * D_WICK / visc_r T"
    using assms d v(2) by (simp add: D_WICK_def)
  have k: "0 < Cp + 1.25 * R_AIR" using R_AIR_pos by (simp add: Cp_def add_pos_pos)
  show "h_cylinder_in_air (Fin D_WICK) (Fin L_WICK) (Fin T) (Fin P) (Fin speed)
           = Fin (hcyl_r T P speed)"
    using v r assms Pr_air_pos
    by (simp add: h_cylinder_in_air_def hcyl_r_def Let_def air_density_Fin thermal_cond_Fin
        fpow_pos D_WICK_def del: fpow.simps)
  show "0 < hcyl_r T P speed"
    unfolding hcyl_r_def using r k v(2) Pr_air_pos d assms(4)
    by (intro divide_pos_pos mult_pos_pos) (simp_all add: D_WICK_def)
qed

lemma h_sphere_fin:
  assumes "0 < T" "T < 1400" "0 < P" "0 < speed" "0 < d"
  shows "is_fin (h_sphere_in_air (Fin d) (Fin T) (Fin P) (Fin speed))"
proof -
  note v = viscosity_Fin [OF assms(1,2)]
  have dd: "0 < dens_r P T" using assms by (simp add: dens_r_pos)
  have r: "0 < speed * dens_r P T * d / visc_r T"
    using assms dd v(2) by simp
  show ?thesis
    using v r assms Pr_air_pos
    by (simp add: h_sphere_in_air_def Let_def air_density_Fin thermal_cond_Fin fpow_pos
        del: fpow.simps)
qed

lemma Tglobe_new_of_first:
  assumes "0 < T" "T < 1400" "0 < P" "0 < speed" "0 < d" "T \<noteq> 32.18" "0 < rh"
  shows "Tglobe_new_of (Fin T) (Fin rh) (Fin P) (Fin speed) (Fin s) (Fin 0) (Fin 1) (Fin d)
           (Fin T)
         = fpow (Fin (0.5 * (emis_r T rh * T powr 4 + EMIS_SFC * T powr 4)
                      + s / (2 * STEFANB * EMIS_GLOBE) * (1 - ALB_GLOBE) * (1 + ALB_SFC)))
             0.25"
proof -
  have "is_fin (h_sphere_in_air (Fin d) (Fin T) (Fin P) (Fin speed))"
    using assms by (intro h_sphere_fin)
  then obtain h where h: "h_sphere_in_air (Fin d) (Fin T) (Fin P) (Fin speed) = Fin h"
    by (cases "h_sphere_in_air (Fin d) (Fin T) (Fin P) (Fin speed)") simp_all
  show ?thesis
    using assms
    by (simp add: Tglobe_new_of_def Let_def h emis_atm_Fin fpow_pos fsub_def
        STEFANB_def EMIS_GLOBE_def del: fpow.simps)
qed

lemma RATIO_pos: "0 < RATIO"
  by (simp add: RATIO_def Cp_def M_AIR_def M_H2O_def)

lemma Twb_new_of_at_dew_point:
  assumes "0 < T" "0 < Tp" "Tp + T < 2800" "0 < P" "0 < speed" "0 < rh"
    and "T \<noteq> 32.18" "Tp \<noteq> 32.18" "P \<noteq> esat_r Tp" "esat_r Tp = rh * esat_r T"
  shows "Twb_new_of (Fin T) (Fin rh) (Fin P) (Fin speed) (Fin s) (Fin 0) (Fin 1) rad (Fin Tp)
         = Fin (T + (if rad = 1 then Fatm_r T rh s Tp / hcyl_r ((Tp + T) / 2) P speed else 0))"
proof -
  have tr: "0 < (Tp + T) / 2" "(Tp + T) / 2 < 1400" using assms by simp_all
  note v = viscosity_Fin [OF tr]
  note hc = h_cylinder_Fin [OF tr assms(4,5)]
  note df = diffusivity_Fin [OF tr(1) assms(4)]
  have dn: "0 < dens_r P ((Tp + T) / 2)" using tr assms by (simp add: dens_r_pos)
  have hz: "hcyl_r ((Tp + T) / 2) P speed \<noteq> 0" using hc(2) by simp
  have pe: "P - rh * esat_r T \<noteq> 0" using assms by simp
  have pi: "PI \<noteq> 0" by (simp add: PI_def)
  have e: "esat (Fin Tp) 0 = Fin (rh * esat_r T)"
    using assms by (simp add: esat_Fin)
  show ?thesis
    unfolding Twb_new_of_def Let_def
    using assms(1,2,6,7,8) hz pe tr(1) v(2) dn df(2) Pr_air_pos RATIO_pos pi
    by (simp add: e esat_Fin emis_atm_Fin evap_Fin v(1) hc(1) df(1) air_density_Fin fpow_pos
        fsub_def Fatm_r_def del: fpow.simps)
qed

subsection \<open>Estimates that are not finite\<close>

lemma nf_inf_sign [simp]: "\<not> is_fin (inf_sign b)"
  by (simp add: inf_sign_def)

lemma nf_fneg: "\<not> is_fin a \<Longrightarrow> \<not> is_fin (fneg a)"
  by (cases a) simp_all

lemma nf_fadd_left: "\<not> is_fin a \<Longrightarrow> \<not> is_fin (fadd a b)"
  by (cases a; cases b) simp_all

lemma nf_fadd_right: "\<not> is_fin b \<Longrightarrow> \<not> is_fin (fadd a b)"
  by (cases a; cases b) simp_all

lemma nf_fsub_left: "\<not> is_fin a \<Longrightarrow> \<not> is_fin (fsub a b)"
  by (simp add: fsub_def nf_fadd_left)

lemma nf_fsub_right: "\<not> is_fin b \<Longrightarrow> \<not> is_fin (fsub a b)"
  by (simp add: fsub_def nf_fadd_right nf_fneg)

lemma nf_fmul_left: "\<not> is_fin a \<Longrightarrow> \<not> is_fin (fmul a b)"
  by (cases a; cases b) simp_all

lemma nf_fmul_right: "\<not> is_fin b \<Longrightarrow> \<not> is_fin (fmul a b)"
  by (cases a; cases b) simp_all

lemma nf_fdiv_left: "\<not> is_fin a \<Longrightarrow> \<not> is_fin (fdiv a b)"
  by (cases a; cases b) simp_all

lemma nf_fdiv_zero: "\<not> is_fin (fdiv (Fin x) (Fin 0))"
  by simp

lemma nf_test: "\<not> is_fin x \<Longrightarrow> \<not> flt (fabs x) c"
  by (cases x; cases c) simp_all

lemma nf_evap: "\<not> is_fin t \<Longrightarrow> \<not> is_fin (evap t)"
  unfolding evap_def
  by (intro nf_fadd_left nf_fmul_left nf_fdiv_left nf_fsub_right)

text \<open>Once an estimate is not finite, the next one is not finite either.\<close>

lemma Twb_new_of_nf:
  assumes "\<not> is_fin p"
  shows "\<not> is_fin (Twb_new_of Tair rh P_air speed solar fdir cza rad p)"
proof -
  have t: "\<not> is_fin (fmul (Fin 0.5) (fadd p Tair))"
    using assms by (intro nf_fmul_right nf_fadd_left)
  show ?thesis
    unfolding Twb_new_of_def Let_def
    by (intro nf_fadd_left nf_fsub_right nf_fmul_left nf_fdiv_left nf_evap t)
qed

lemma Twb_prev_nf:
  assumes "\<not> is_fin n"
  shows "\<not> is_fin (fadd (fmul (Fin 0.9) p) (fmul (Fin 0.1) n))"
  using assms by (intro nf_fadd_right nf_fmul_right)

lemma Twb_new_nf_from:
  assumes "\<not> is_fin (Twb_new_of Tair rh P_air speed solar fdir cza rad
                        (Twb_prev_at Tair rh P_air speed solar fdir cza rad T0 k))"
  shows "\<not> is_fin (Twb_new_of Tair rh P_air speed solar fdir cza rad
                      (Twb_prev_at Tair rh P_air speed solar fdir cza rad T0 (k + n)))"
proof (induction n)
  case 0
  show ?case using assms by simp
next
  case (Suc n)
  show ?case
    using Suc by (simp add: Twb_new_of_nf Twb_prev_nf)
qed

lemma Twb_test_nf_from:
  assumes "\<not> is_fin (Twb_new_of Tair rh P_air speed solar fdir cza rad
                        (Twb_prev_at Tair rh P_air speed solar fdir cza rad T0 k))"
    and "k \<le> j"
  shows "\<not> Twb_test Tair rh P_air speed solar fdir cza rad T0 j"
proof -
  from assms(2) obtain n where j: "j = k + n" by (auto simp: le_iff_add)
  show ?thesis
    unfolding Twb_test_def j
    by (intro nf_test nf_fsub_left Twb_new_nf_from assms(1))
qed

text \<open>A pass whose estimate makes the vapour pressure of the wick equal to the air pressure.\<close>

lemma Twb_new_of_singular:
  assumes "0 < T" "0 < Tp" "Tp + T < 2800" "0 < rh" "T \<noteq> 32.18" "Tp \<noteq> 32.18"
  shows "\<not> is_fin (Twb_new_of (Fin T) (Fin rh) (Fin (esat_r Tp)) speed solar fdir cza rad
                      (Fin Tp))"
proof -
  have e: "esat (Fin Tp) 0 = Fin (esat_r Tp)" using assms by (simp add: esat_Fin)
  have ea: "fmul (Fin rh) (esat (Fin T) 0) = Fin (rh * esat_r T)"
    using assms by (simp add: esat_Fin)
  have n: "fmul (fdiv (evap (fmul (Fin 0.5) (fadd (Fin Tp) (Fin T)))) (Fin RATIO))
             (fsub (Fin (esat_r Tp)) (Fin (rh * esat_r T)))
           = Fin (evap_r (0.5 * (Tp + T)) / RATIO * (esat_r Tp - rh * esat_r T))"
    using RATIO_pos by (simp add: evap_Fin fsub_def)
  have z: "fsub (Fin (esat_r Tp)) (Fin (esat_r Tp)) = Fin 0" by (simp add: fsub_def)
  show ?thesis
    unfolding Twb_new_of_def Let_def e ea n z
    by (intro nf_fadd_left nf_fsub_right nf_fmul_left nf_fdiv_zero)
qed

subsection \<open>An input on which only the psychrometric solve fails\<close>

lemma exp_quad4: 
  assumes "0 \<le> (y::real)"
  shows "(1 + y + y\<^sup>2 / 2) ^ 4 \<le> exp (4 * y)"
proof -
  have "1 + y + y\<^sup>2 / 2 \<le> exp y" using assms by (rule exp_lower_Taylor_quadratic)
  moreover have "0 \<le> 1 + y + y\<^sup>2 / 2" using assms by (simp add: add_nonneg_nonneg)
  ultimately have "(1 + y + y\<^sup>2 / 2) ^ 4 \<le> exp y ^ 4" by (rule power_mono)
  also have "exp y ^ 4 = exp (4 * y)"
    using exp_of_nat_mult [of 4 y] by simp
  finally show ?thesis .
qed

lemma esat_320_ge: "90 \<le> esat_r 320"
proof -
  have "(14.9::real) \<le> (1 + 0.712 + 0.712\<^sup>2 / 2) ^ 4"
    by (simp add: power2_eq_square power_divide)
  also have "\<dots> \<le> exp (4 * 0.712)" by (rule exp_quad4) simp
  also have "\<dots> \<le> exp (17.502 * ((320 - 273.15) / (320 - 32.18)))" by simp
  finally have "14.9 \<le> exp (17.502 * ((320 - 273.15) / (320 - 32.18 :: real)))" .
  then show ?thesis unfolding esat_r_def by simp
qed

lemma powr_0143_ge:
  assumes "90 \<le> (e::real)"
  shows "1.9 \<le> e powr 0.143"
proof -
  have "(1.9::real) = (1.9 powr (1000 / 143)) powr 0.143"
    by (simp add: powr_powr)
  also have "\<dots> \<le> (1.9 powr 7) powr 0.143"
    by (intro powr_mono2 powr_mono) simp_all
  also have "\<dots> \<le> e powr 0.143"
  proof -
    have "(1.9::real) ^ 7 \<le> 90" by (simp add: power_divide)
    with assms show ?thesis by (intro powr_mono2) simp_all
  qed
  finally show ?thesis .
qed

lemma sqrt_9270: "96 \<le> sqrt (M_AIR * 320.015)" "sqrt (M_AIR * 320.015) \<le> 97"
  by (auto intro!: real_le_lsqrt real_le_rsqrt simp: M_AIR_def power2_eq_square)

lemma esat_320003_le: "esat_r 320.003 \<le> 166"
proof -
  have "exp (17.502 * ((320.003 - 273.15) / (320.003 - 32.18))) \<le> exp (3::real)" by simp
  also have "exp (3::real) = exp 1 ^ 3" using exp_of_nat_mult [of 3 "1::real"] by simp
  also have "\<dots> \<le> 3 ^ 3" by (intro power_mono exp_le) simp
  finally show ?thesis unfolding esat_r_def by simp
qed

lemma rh_K_pos: "0 < rh_K"
  unfolding rh_K_def using esat_r_pos by simp

lemma rh_K_esat: "rh_K * esat_r 320.03 = esat_r 320"
  unfolding rh_K_def using esat_r_pos [of "320.03"] by simp

lemma emis_K_ge: "1.0925 \<le> emis_r 320.03 rh_K"
  unfolding emis_r_def rh_K_esat using powr_0143_ge [OF esat_320_ge] by simp

lemma s_K_neg: "s_K < 0"
proof -
  have p: "(320.03::real) powr 4 = 320.03 ^ 4" by simp
  show ?thesis
    unfolding s_K_def p using emis_K_ge
    by (simp add: EMIS_SFC_def STEFANB_def EMIS_GLOBE_def ALB_GLOBE_def ALB_SFC_def
        field_simps)
qed

lemma F_K_le: "Fatm_r 320.03 rh_K s_K 320 \<le> - 8"
proof -
  have p: "(320.03::real) powr 4 = 320.03 ^ 4" "(320::real) powr 4 = 320 ^ 4" by simp_all
  show ?thesis
    unfolding Fatm_r_def s_K_def p using emis_K_ge
    by (simp add: EMIS_SFC_def STEFANB_def EMIS_GLOBE_def ALB_GLOBE_def ALB_SFC_def
        EMIS_WICK_def ALB_WICK_def D_WICK_def L_WICK_def field_simps)
qed

lemma h_K_ge: "266 \<le> h_K"
  unfolding h_K_def using F_K_le by (simp add: field_simps)

lemma visc_K_bounds: "0.0000193 \<le> visc_r 320.015" "visc_r 320.015 \<le> 0.0000196"
  using sqrt_9270 unfolding visc_r_def omega_r_def by (simp_all add: field_simps)

lemma P_K_pos: "0 < P_K"
  unfolding P_K_def by (rule esat_r_pos)

lemma dens_K_bounds: "0 < dens_r P_K 320.015" "dens_r P_K 320.015 \<le> 0.181"
proof -
  show "0 < dens_r P_K 320.015" using P_K_pos by (simp add: dens_r_pos)
  have "P_K \<le> 166" unfolding P_K_def by (rule esat_320003_le)
  then show "dens_r P_K 320.015 \<le> 0.181"
    unfolding dens_r_def by (simp add: R_AIR_def R_GAS_def M_AIR_def field_simps)
qed

lemma Pr_powr_le: "Pr_air powr 0.44 \<le> 1"
proof -
  have "Pr_air \<le> 1" using R_AIR_pos by (simp add: Pr_air_def Cp_def)
  then show ?thesis using Pr_air_pos by (intro powr_le1) simp_all
qed

lemma X_K_ge: "200 \<le> X_K"
proof -
  define c where "c = Cp + 1.25 * R_AIR"
  define v where "v = visc_r 320.015"
  define p where "p = Pr_air powr 0.44"
  have c: "c \<le> 1363" "0 < c"
    by (simp_all add: c_def Cp_def R_AIR_def R_GAS_def M_AIR_def)
  have v: "0 < v" "v \<le> 0.0000196" using visc_K_bounds by (simp_all add: v_def)
  have p: "0 < p" "p \<le> 1" using Pr_air_pos Pr_powr_le by (simp_all add: p_def)
  have "c * v \<le> 1363 * 0.0000196"
    using c v by (intro mult_mono) simp_all
  then have cv: "c * v * 0.281 \<le> 1363 * 0.0000196 * 0.281" by simp
  have "0 \<le> c * v * 0.281" using c v by simp
  then have "c * v * 0.281 * p \<le> c * v * 0.281"
    using p(2) by (rule_tac mult_left_le)
  with cv have d: "c * v * 0.281 * p \<le> 0.0076" by simp
  have dp: "0 < c * v * 0.281 * p" using c v p by simp
  have n: "1.8 \<le> h_K * D_WICK" using h_K_ge by (simp add: D_WICK_def)
  have "(200::real) \<le> 1.8 / 0.0076" by simp
  also have "\<dots> \<le> h_K * D_WICK / (c * v * 0.281 * p)"
    using n d dp by (intro frac_le) simp_all
  finally show ?thesis unfolding X_K_def c_def v_def p_def .
qed

lemma speed_K_gt: "0.13 < speed_K"
proof -
  have x: "X_K \<le> X_K powr (5 / 3)"
    using X_K_ge powr_mono [of 1 "5 / 3" X_K] by simp
  have "200 * 0.0000193 \<le> X_K powr (5 / 3) * visc_r 320.015"
    using x X_K_ge visc_K_bounds(1) by (intro mult_mono) simp_all
  moreover have "dens_r P_K 320.015 * D_WICK \<le> 0.181 * 0.007"
    using dens_K_bounds by (simp add: D_WICK_def)
  moreover have "0 < dens_r P_K 320.015 * D_WICK"
    using dens_K_bounds by (simp add: D_WICK_def)
  ultimately have "200 * 0.0000193 / (0.181 * 0.007)
                     \<le> X_K powr (5 / 3) * visc_r 320.015 / (dens_r P_K 320.015 * D_WICK)"
    by (intro frac_le) simp_all
  then show ?thesis unfolding speed_K_def by simp
qed

lemma hcyl_K: "hcyl_r 320.015 P_K speed_K = h_K"
proof -
  have v: "0 < visc_r 320.015" using visc_K_bounds(1) by simp
  have d: "0 < dens_r P_K 320.015" by (rule dens_K_bounds)
  have xp: "0 < X_K" using X_K_ge by simp
  have c: "0 < Cp + 1.25 * R_AIR"
    by (simp add: Cp_def R_AIR_def R_GAS_def M_AIR_def)
  have p: "0 < Pr_air powr 0.44" using Pr_air_pos by simp
  have r: "speed_K * dens_r P_K 320.015 * D_WICK / visc_r 320.015 = X_K powr (5 / 3)"
    unfolding speed_K_def using v d by (simp add: D_WICK_def)
  have e: "(X_K powr (5 / 3)) powr 0.6 = X_K"
    using xp by (simp add: powr_powr)
  have "hcyl_r 320.015 P_K speed_K
          = 0.281 * X_K * Pr_air powr 0.44 * ((Cp + 1.25 * R_AIR) * visc_r 320.015) / D_WICK"
    unfolding hcyl_r_def r e ..
  also have "\<dots> = h_K"
    unfolding X_K_def using v c p by (simp add: D_WICK_def)
  finally show ?thesis .
qed

lemma root4: "0 < a \<Longrightarrow> (a ^ 4) powr (1 / 4) = (a::real)"
proof -
  assume a: "0 < a"
  then have "(a ^ 4) powr (1 / 4) = (a powr 4) powr (1 / 4)" by simp
  also have "\<dots> = a powr (4 * (1 / 4))" by (rule powr_powr)
  also have "\<dots> = a" using a by simp
  finally show ?thesis .
qed

lemma Tglobe_K:
  "Tglobe (Fin 320.03) (Fin rh_K) (Fin P_K) (Fin speed_K) (Fin s_K) (Fin 0) (Fin 1)
     (Fin D_GLOBE) = Fin 46.88"
proof -
  have sp: "0 < speed_K" using speed_K_gt by simp
  have x: "0.5 * (emis_r 320.03 rh_K * 320.03 powr 4 + EMIS_SFC * 320.03 powr 4)
             + s_K / (2 * STEFANB * EMIS_GLOBE) * (1 - ALB_GLOBE) * (1 + ALB_SFC)
           = 320.03 powr 4"
    unfolding s_K_def
    by (simp add: STEFANB_def EMIS_GLOBE_def ALB_GLOBE_def ALB_SFC_def field_simps)
  have n: "Tglobe_new_of (Fin 320.03) (Fin rh_K) (Fin P_K) (Fin speed_K) (Fin s_K) (Fin 0)
             (Fin 1) (Fin D_GLOBE) (Fin 320.03) = Fin 320.03"
    using Tglobe_new_of_first [of "320.03" P_K speed_K D_GLOBE rh_K s_K]
      P_K_pos sp rh_K_pos
    unfolding x by (simp add: D_GLOBE_def fpow_pos root4 del: fpow.simps)
  show ?thesis
    unfolding Tglobe_def Let_def
    apply (subst Tglobe_loop.simps)
    using n by (simp add: feq_def D_GLOBE_def Let_def fsub_def CONVERGENCE_def)
qed

lemma P_K_ne: "P_K \<noteq> esat_r 320"
  unfolding P_K_def esat_r_def by simp

lemma Twb_K_first:
  "Twb_new_of (Fin 320.03) (Fin rh_K) (Fin P_K) (Fin speed_K) (Fin s_K) (Fin 0) (Fin 1) rad
     (Fin 320) = Fin (if rad = 1 then 320 else 320.03)"
proof -
  have sp: "0 < speed_K" using speed_K_gt by simp
  have f: "Fatm_r 320.03 rh_K s_K 320 \<noteq> 0" using F_K_le by simp
  have h: "Fatm_r 320.03 rh_K s_K 320 / hcyl_r ((320 + 320.03) / 2) P_K speed_K = - 0.03"
    using hcyl_K f by (simp add: h_K_def)
  show ?thesis
    using Twb_new_of_at_dew_point [of "320.03" 320 P_K speed_K rh_K s_K rad]
      P_K_pos sp rh_K_pos P_K_ne rh_K_esat h
    by simp
qed

lemma Tdew_K: "dew_point (fmul (Fin rh_K) (esat (Fin 320.03) 0)) 0 = Fin 320"
  using dew_point_esat [of 320] rh_K_esat by (simp add: esat_Fin)

lemma Twb_K_rad: "Twb (Fin 320.03) (Fin rh_K) (Fin P_K) (Fin speed_K) (Fin s_K) (Fin 0) (Fin 1) 1
                  = Fin 46.85"
  unfolding Twb_def Let_def Tdew_K
  apply (subst Twb_loop.simps)
  using Twb_K_first [of 1] by (simp add: Let_def fsub_def CONVERGENCE_def)

lemma Twb_K_psy: "Twb (Fin 320.03) (Fin rh_K) (Fin P_K) (Fin speed_K) (Fin s_K) (Fin 0) (Fin 1) 0
                  = SENTINEL"
proof -
  let ?test = "Twb_test (Fin 320.03) (Fin rh_K) (Fin P_K) (Fin speed_K) (Fin s_K) (Fin 0)
                 (Fin 1) 0 (Fin 320)"
  have t0: "\<not> ?test 0"
    using Twb_K_first [of 0] by (simp add: Twb_test_def fsub_def CONVERGENCE_def)
  have p1: "Twb_prev_at (Fin 320.03) (Fin rh_K) (Fin P_K) (Fin speed_K) (Fin s_K) (Fin 0)
              (Fin 1) 0 (Fin 320) 1 = Fin 320.003"
    using Twb_K_first [of 0] by simp
  have n1: "\<not> is_fin (Twb_new_of (Fin 320.03) (Fin rh_K) (Fin P_K) (Fin speed_K) (Fin s_K)
                        (Fin 0) (Fin 1) 0
                        (Twb_prev_at (Fin 320.03) (Fin rh_K) (Fin P_K) (Fin speed_K) (Fin s_K)
                           (Fin 0) (Fin 1) 0 (Fin 320) 1))"
    unfolding p1 unfolding P_K_def using rh_K_pos by (intro Twb_new_of_singular) simp_all
  have "\<not> ?test k" for k
  proof (cases k)
    case 0
    then show ?thesis using t0 by simp
  next
    case (Suc j)
    then have "1 \<le> k" by simp
    then show ?thesis by (rule Twb_test_nf_from [OF n1])
  qed
  then show ?thesis
    using Twb_never [of "Fin 320.03" "Fin rh_K" "Fin P_K" "Fin speed_K" "Fin s_K" "Fin 0"
        "Fin 1" 0]
    unfolding Tdew_K by simp
qed

lemma wbgt_solar_K:
  "wbgt_solar spa_zenith_0 out_nan NaN 2005 6 21 12 0 0 (- 6) 1 (Fin 35) (Fin (- 98))
     (Fin s_K) 1 = \<lparr>sp_solar = Fin s_K, sp_cza = Fin 1, sp_fdir = Fin 0\<rparr>"
  using s_K_neg
  by (simp add: wbgt_solar_def calc_solar_parameters_def solar_geometry_def spa_zenith_0_def
      Let_def DEG_RAD_def toasolar_of_def CZA_MIN_def SOLAR_CONST_def max_c_def min_c_def
      fgt_def solar_partition_def NORMSOLAR_MAX_def)

lemma wbgt_speed_K:
  "wbgt_speed (Fin speed_K) (Fin 2) (Fin s_K) (Fin 0) 0 (to_float (max_c (Fin 0) MIN_SPEED))
     (Fin 1) = Some (Fin speed_K)"
  using speed_K_gt unfolding floor_zero
  by (simp add: wbgt_speed_def REF_HEIGHT_def feq_def max_c_def fgt_def)

lemma calc_wbgt_K:
  "calc_wbgt spa_zenith_0 out_nan NaN 2005 6 21 12 0 0 (- 6) 1 (Fin 35) (Fin (- 98))
     (Fin s_K) (Fin P_K) (Fin 46.88) (Fin (100 * rh_K)) (Fin speed_K) (Fin 2) (Fin 0) 0 1
     (Fin 0) (Fin 0) = Some (0, out_K)"
proof -
  have t: "fadd (Fin 46.88) (Fin 273.15) = Fin 320.03" by simp
  have r: "fmul (Fin 0.01) (Fin (100 * rh_K)) = Fin rh_K" by simp
  have d: "(if feq (Fin 0) (Fin 0.0) then Fin D_GLOBE else Fin 0) = Fin D_GLOBE"
    by (simp add: feq_def)
  show ?thesis
    unfolding calc_wbgt_unfold wbgt_solar_K Let_def
    apply (simp only: solar_params.simps wbgt_speed_K option.case t r d
        Tglobe_K Twb_K_rad Twb_K_psy)
    by (simp add: feq_def SENTINEL_def out_K_def)
qed


subsection \<open>The composite index\<close>

text \<open>
  C1. When \<^verbatim>\<open>calc_wbgt\<close> returns and neither the globe temperature nor the natural wet
  bulb temperature it stores is the failure value -9999, the value it stores in
  \<^verbatim>\<open>*Twbg\<close> is \<open>0.1 * Tair + 0.2 * Tg + 0.7 * Tnwb\<close>, with the input air temperature
  and the two stored temperatures, and the return code is 0.
\<close>

theorem C1_composite_index:
  assumes "calc_wbgt spa_calculate junk cza0 year month day hour minute second gmt avg
             lat lon solar pres Tair relhum speed zspeed dT urban use_spa min_speed d_globe
           = Some (rc, out)"
    and "\<not> feq (Tg out) SENTINEL" and "\<not> feq (Tnwb out) SENTINEL"
  shows "Twbg out = fadd (fadd (fmul (Fin 0.1) Tair) (fmul (Fin 0.2) (Tg out)))
                        (fmul (Fin 0.7) (Tnwb out))
         \<and> rc = 0"
  using assms unfolding calc_wbgt_unfold Let_def
  by (auto split: option.splits if_splits)

theorem C1_witness_both_converge:
  "\<not> feq (Tg out_K) SENTINEL \<and> \<not> feq (Tnwb out_K) SENTINEL
   \<and> calc_wbgt spa_zenith_0 out_nan NaN 2005 6 21 12 0 0 (- 6) 1 (Fin 35) (Fin (- 98))
       (Fin s_K) (Fin P_K) (Fin 46.88) (Fin (100 * rh_K)) (Fin speed_K) (Fin 2) (Fin 0) 0 1
       (Fin 0) (Fin 0) = Some (0, out_K)
   \<and> Twbg out_K = fadd (fadd (fmul (Fin 0.1) (Fin 46.88)) (fmul (Fin 0.2) (Tg out_K)))
                       (fmul (Fin 0.7) (Tnwb out_K))"
proof -
  have g: "\<not> feq (Tg out_K) SENTINEL" and n: "\<not> feq (Tnwb out_K) SENTINEL"
    by (simp_all add: out_K_def feq_def SENTINEL_def)
  from C1_composite_index [OF calc_wbgt_K g n] g n calc_wbgt_K
  show ?thesis by simp
qed

end
